theory Spec2Isabelle
  imports Main
begin

section \<open>Data model\<close>

text \<open>
  The repository holds two copies of the policy-driven stack allocator:
  \<^verbatim>\<open>Source/Allocators/StackAllocator.hpp\<close> and
  \<^verbatim>\<open>Source/StackAllocator/StackAllocator.hpp\<close>. They share almost
  every line; where they differ the model branches on \<open>variant\<close>.

  The template parameter \<^verbatim>\<open>policy\<close> selects the checks at compile time.
  \<open>Build\<close> holds that selection, together with \<open>sizeofOffset\<close>: the aliases
  \<^verbatim>\<open>Offset\<close>, \<^verbatim>\<open>Size\<close>, \<^verbatim>\<open>UIntPtr\<close>
  are declared in TypeAliases.hpp, which is not among the sources, so the width of one
  \<^verbatim>\<open>Offset\<close>/\<^verbatim>\<open>Size\<close> field is a parameter. A field is
  \<open>8 * sizeofOffset\<close> bits wide: every sum and product the source computes in
  \<^verbatim>\<open>Size\<close> or \<^verbatim>\<open>Offset\<close> wraps around modulo
  \<open>Size_range\<close>, and so does an address to which a size is added. The address of
  the payload, start address plus offset plus padding, is an exact natural number: it
  would wrap only for an offset past the end of the address space. A difference that
  would fall below zero is 0 in the model and wraps around in the C++; the allocator
  computes none for a pointer it has returned.
\<close>

datatype Variant = InAllocators | InStackAllocator

datatype Error =
  OutOfMemory | OutOfOrderDeallocation | NullPointerDeallocation | NotOwnedPointer
  | CorruptionDetected

record Build =
  variant :: Variant
  sizeCheck :: bool
  boundsCheck :: bool
  stackCheck :: bool
  nullCheck :: bool
  ownershipCheck :: bool
  sizeofOffset :: nat

definition Size_range :: "Build \<Rightarrow> nat" where
  "Size_range b = 2 ^ (8 * sizeofOffset b)"

definition wrap :: "Build \<Rightarrow> nat \<Rightarrow> nat" where
  "wrap b n = n mod Size_range b"

text \<open>
  The class \<^verbatim>\<open>Alignment\<close> (Source/Utility/Alignment.hpp, not among the
  sources) wraps a power of two; the allocator only ever receives such a value, so a value
  of the model is given by its exponent.
\<close>

datatype Alignment = PowerOfTwo nat

fun value_of :: "Alignment \<Rightarrow> nat" where
  "value_of (PowerOfTwo k) = 2 ^ k"

text \<open>
  The allocator object. \<open>memory\<close> maps the address of a stored field to its value:
  a struct with fields \<open>f\<^sub>0, f\<^sub>1, \<dots>\<close> written at address \<open>a\<close> puts
  \<open>f\<^sub>i\<close> at \<open>a + i * sizeofOffset\<close>. \<open>usedSize\<close> is the member of the base
  class that \<^verbatim>\<open>SetUsedSize\<close> writes and \<^verbatim>\<open>GetUsedSize\<close> reads.
  \<^verbatim>\<open>m_EndAddress\<close> is initialised once, by the constructor, to
  \<^verbatim>\<open>m_StartAddress + totalSize\<close>.
\<close>

record StackAllocator =
  m_StartAddress :: nat
  totalSize :: nat
  m_CurrentOffset :: nat
  usedSize :: nat
  memory :: "nat \<Rightarrow> nat"

definition m_EndAddress :: "StackAllocator \<Rightarrow> nat" where
  "m_EndAddress s = m_StartAddress s + totalSize s"

definition StackAllocator_new :: "nat \<Rightarrow> nat \<Rightarrow> (nat \<Rightarrow> nat) \<Rightarrow> StackAllocator" where
  "StackAllocator_new startAddress totalSz mem =
     \<lparr>m_StartAddress = startAddress, totalSize = totalSz, m_CurrentOffset = 0, usedSize = 0,
      memory = mem\<rparr>"

datatype StackHeader = StackHeader (startOffset: nat) (endOffset: nat)

datatype StackArrayHeader = StackArrayHeader (arrayStartOffset: nat) (count: nat)

datatype StackPtr = StackPtr (GetPtr: nat) (header: StackHeader)

datatype StackArrayPtr = StackArrayPtr (GetArrayPtr: nat) (arrayHeader: StackArrayHeader)

text \<open>
  \<^verbatim>\<open>MEMARENA_ASSERT\<close> aborts the process. A call therefore either aborts
  with an error, in the state the allocator had at the failing assertion, or returns a
  value and the state it leaves.
\<close>

type_synonym 'a result = "(Error \<times> StackAllocator) + ('a \<times> StackAllocator)"

definition failure :: "(Error \<times> 's) + 'a \<Rightarrow> Error option" where
  "failure r = (case r of Inl (e, _) \<Rightarrow> Some e | Inr _ \<Rightarrow> None)"

definition stateAfter :: "'a result \<Rightarrow> StackAllocator" where
  "stateAfter r = (case r of Inl (_, s) \<Rightarrow> s | Inr (_, s) \<Rightarrow> s)"

section \<open>Padding, headers and guards\<close>

text \<open>
  Modelled from the spec: \<^verbatim>\<open>CalculateAlignedAddress\<close> and
  \<^verbatim>\<open>CalculateAlignedPaddingWithHeader\<close> (Source/Utility/Alignment.hpp) are
  not among the sources. The spec: AlignUp(base, alignment) is the smallest address
  \<open>\<ge> base\<close> that is a multiple of the alignment; with
  aligned = AlignUp(base + headerSize, alignment) the padding is aligned - base.
\<close>

definition CalculateAlignedAddress :: "nat \<Rightarrow> Alignment \<Rightarrow> nat" where
  "CalculateAlignedAddress baseAddress alignment =
     ((baseAddress + value_of alignment - 1) div value_of alignment) * value_of alignment"

definition CalculateAlignedPaddingWithHeader :: "nat \<Rightarrow> Alignment \<Rightarrow> nat \<Rightarrow> nat" where
  "CalculateAlignedPaddingWithHeader baseAddress alignment headerSize =
     CalculateAlignedAddress (baseAddress + headerSize) alignment - baseAddress"

text \<open>
  \<^verbatim>\<open>InplaceHeader\<close> derives from \<^verbatim>\<open>SafeHeaderBase\<close>
  (one field, \<open>endOffset\<close>) under StackCheck and from the empty
  \<^verbatim>\<open>UnsafeHeaderBase\<close> otherwise, and adds \<open>startOffset\<close>.
  \<^verbatim>\<open>StackArrayHeader\<close> is \<open>{startOffset, count}\<close>.
\<close>

definition sizeof_InplaceHeader :: "Build \<Rightarrow> nat" where
  "sizeof_InplaceHeader b = (if stackCheck b then 2 * sizeofOffset b else sizeofOffset b)"

definition sizeof_InplaceArrayHeader :: "Build \<Rightarrow> nat" where
  "sizeof_InplaceArrayHeader b = 2 * sizeofOffset b"

text \<open>
  Modelled from the spec: \<^verbatim>\<open>BoundGuardFront\<close> and
  \<^verbatim>\<open>BoundGuardBack\<close> (Source/Policies/BoundsCheckPolicy.hpp) are not among
  the sources. The spec: the front guard stores \<open>{offset, allocationSize}\<close>, the back
  guard \<open>{offset}\<close>; the constructor calls in \<^verbatim>\<open>AllocateInternal\<close>
  pass the fields in this order.
\<close>

definition sizeof_BoundGuardFront :: "Build \<Rightarrow> nat" where
  "sizeof_BoundGuardFront b = 2 * sizeofOffset b"

definition sizeof_BoundGuardBack :: "Build \<Rightarrow> nat" where
  "sizeof_BoundGuardBack b = sizeofOffset b"

definition new_BoundGuardFront :: "Build \<Rightarrow> (nat \<Rightarrow> nat) \<Rightarrow> nat \<Rightarrow> nat \<Rightarrow> nat \<Rightarrow> (nat \<Rightarrow> nat)" where
  "new_BoundGuardFront b mem address offset allocationSize =
     mem(address := offset, address + sizeofOffset b := allocationSize)"

definition new_BoundGuardBack :: "(nat \<Rightarrow> nat) \<Rightarrow> nat \<Rightarrow> nat \<Rightarrow> (nat \<Rightarrow> nat)" where
  "new_BoundGuardBack mem address offset = mem(address := offset)"

definition frontGuard_offset :: "(nat \<Rightarrow> nat) \<Rightarrow> nat \<Rightarrow> nat" where
  "frontGuard_offset mem address = mem address"

definition frontGuard_allocationSize :: "Build \<Rightarrow> (nat \<Rightarrow> nat) \<Rightarrow> nat \<Rightarrow> nat" where
  "frontGuard_allocationSize b mem address = mem (address + sizeofOffset b)"

definition backGuard_offset :: "(nat \<Rightarrow> nat) \<Rightarrow> nat \<Rightarrow> nat" where
  "backGuard_offset mem address = mem address"

text \<open>
  \<^verbatim>\<open>AllocateHeader<Header>(ptr, args...)\<close> constructs the header at
  \<^verbatim>\<open>ptr - sizeof(Header)\<close>; \<^verbatim>\<open>GetHeaderFromPtr<Header>(address)\<close>
  reads it back from there and moves \<^verbatim>\<open>address\<close> to the header. An in-place
  header without \<open>endOffset\<close> is returned with \<open>endOffset = 0\<close>: the field is read
  under StackCheck only.
\<close>

definition AllocateHeader_InplaceHeader :: "Build \<Rightarrow> (nat \<Rightarrow> nat) \<Rightarrow> nat \<Rightarrow> nat \<Rightarrow> nat \<Rightarrow> (nat \<Rightarrow> nat)" where
  "AllocateHeader_InplaceHeader b mem ptr startOff endOff =
     (let headerAddress = ptr - sizeof_InplaceHeader b
      in if stackCheck b
         then mem(headerAddress := endOff, headerAddress + sizeofOffset b := startOff)
         else mem(headerAddress := startOff))"

definition GetHeaderFromPtr_InplaceHeader :: "Build \<Rightarrow> (nat \<Rightarrow> nat) \<Rightarrow> nat \<Rightarrow> StackHeader \<times> nat" where
  "GetHeaderFromPtr_InplaceHeader b mem address =
     (let headerAddress = address - sizeof_InplaceHeader b
      in (if stackCheck b
          then StackHeader (mem (headerAddress + sizeofOffset b)) (mem headerAddress)
          else StackHeader (mem headerAddress) 0,
          headerAddress))"

definition AllocateHeader_InplaceArrayHeader :: "Build \<Rightarrow> (nat \<Rightarrow> nat) \<Rightarrow> nat \<Rightarrow> nat \<Rightarrow> nat \<Rightarrow> (nat \<Rightarrow> nat)" where
  "AllocateHeader_InplaceArrayHeader b mem ptr startOff objectCount =
     (let headerAddress = ptr - sizeof_InplaceArrayHeader b
      in mem(headerAddress := startOff, headerAddress + sizeofOffset b := objectCount))"

definition GetHeaderFromPtr_InplaceArrayHeader :: "Build \<Rightarrow> (nat \<Rightarrow> nat) \<Rightarrow> nat \<Rightarrow> StackArrayHeader \<times> nat" where
  "GetHeaderFromPtr_InplaceArrayHeader b mem address =
     (let headerAddress = address - sizeof_InplaceArrayHeader b
      in (StackArrayHeader (mem headerAddress) (mem (headerAddress + sizeofOffset b)),
          headerAddress))"

definition GetTotalHeaderSize :: "Build \<Rightarrow> nat \<Rightarrow> nat" where
  "GetTotalHeaderSize b headerSize =
     (if boundsCheck b then headerSize + sizeof_BoundGuardFront b else headerSize)"

section \<open>The allocator\<close>

text \<open>
  Modelled from the spec: \<^verbatim>\<open>SetUsedSize\<close> and \<^verbatim>\<open>GetUsedSize\<close>
  belong to the base class (Source/Allocator.hpp), which is not among the sources;
  the setter stores the value the getter reports.
\<close>

definition SetUsedSize :: "StackAllocator \<Rightarrow> nat \<Rightarrow> StackAllocator" where
  "SetUsedSize s n = s\<lparr>usedSize := n\<rparr>"

definition GetUsedSize :: "StackAllocator \<Rightarrow> nat" where
  "GetUsedSize s = usedSize s"

definition GetTotalSize :: "StackAllocator \<Rightarrow> nat" where
  "GetTotalSize s = totalSize s"

definition SetCurrentOffset :: "StackAllocator \<Rightarrow> nat \<Rightarrow> StackAllocator" where
  "SetCurrentOffset s offset = SetUsedSize (s\<lparr>m_CurrentOffset := offset\<rparr>) offset"

definition Reset :: "StackAllocator \<Rightarrow> StackAllocator" where
  "Reset s = SetCurrentOffset s 0"

definition OwnsAddress :: "StackAllocator \<Rightarrow> nat \<Rightarrow> bool" where
  "OwnsAddress s address \<longleftrightarrow> address \<ge> m_StartAddress s \<and> address \<le> m_EndAddress s"

text \<open>
  \<^verbatim>\<open>AllocateInternal<headerSize>(size, alignment)\<close>. The copy in
  Source/Allocators returns \<open>(pointer, startOffset, endOffset)\<close>; the copy in
  Source/StackAllocator returns the pointer and its callers read
  \<^verbatim>\<open>m_CurrentOffset\<close> before and after the call, which gives the same
  triple. Only the copy in Source/Allocators adds
  \<^verbatim>\<open>sizeof(BoundGuardBack)\<close> to the new offset, after the size check.
  \<^verbatim>\<open>totalSizeAfterAllocation\<close> is a \<^verbatim>\<open>Size\<close>: the sum
  wraps around.
\<close>

definition AllocateInternal :: "Build \<Rightarrow> nat \<Rightarrow> StackAllocator \<Rightarrow> nat \<Rightarrow> Alignment \<Rightarrow> (nat \<times> nat \<times> nat) result" where
  "AllocateInternal b headerSize s sz alignment =
     (let startOff = m_CurrentOffset s;
          baseAddress = m_StartAddress s + m_CurrentOffset s;
          totalHeaderSize = GetTotalHeaderSize b headerSize;
          padding = (if totalHeaderSize > 0
                     then CalculateAlignedPaddingWithHeader baseAddress alignment totalHeaderSize
                     else CalculateAlignedAddress baseAddress alignment - baseAddress);
          alignedAddress = (if totalHeaderSize > 0
                            then baseAddress + padding
                            else CalculateAlignedAddress baseAddress alignment);
          totalSizeAfterAllocation = wrap b (m_CurrentOffset s + padding + sz)
      in if sizeCheck b \<and> \<not> totalSizeAfterAllocation \<le> GetTotalSize s
         then Inl (OutOfMemory, s)
         else
           let newOffset = (if boundsCheck b \<and> variant b = InAllocators
                            then wrap b (totalSizeAfterAllocation + sizeof_BoundGuardBack b)
                            else totalSizeAfterAllocation);
               s1 = (if boundsCheck b
                     then s\<lparr>memory :=
                            new_BoundGuardBack
                              (new_BoundGuardFront b (memory s) (alignedAddress - totalHeaderSize)
                                 (m_CurrentOffset s) sz)
                              (wrap b (alignedAddress + sz)) (m_CurrentOffset s)\<rparr>
                     else s);
               s2 = SetCurrentOffset s1 newOffset
           in Inr ((alignedAddress, startOff, m_CurrentOffset s2), s2))"

definition Allocate :: "Build \<Rightarrow> StackAllocator \<Rightarrow> nat \<Rightarrow> Alignment \<Rightarrow> nat result" where
  "Allocate b s sz alignment =
     (case AllocateInternal b (sizeof_InplaceHeader b) s sz alignment of
        Inl e \<Rightarrow> Inl e
      | Inr ((voidPtr, startOff, endOff), s1) \<Rightarrow>
          Inr (voidPtr,
               s1\<lparr>memory := AllocateHeader_InplaceHeader b (memory s1) voidPtr startOff endOff\<rparr>))"

text \<open>
  \<^verbatim>\<open>New<Object>\<close> and \<^verbatim>\<open>NewArray<Object>\<close> take
  \<^verbatim>\<open>sizeof(Object)\<close> and \<^verbatim>\<open>alignof(Object)\<close> as arguments;
  the constructors run on the payload and touch no header or guard.
\<close>

definition New :: "Build \<Rightarrow> StackAllocator \<Rightarrow> nat \<Rightarrow> Alignment \<Rightarrow> StackPtr result" where
  "New b s sizeofObject alignofObject =
     (case AllocateInternal b 0 s sizeofObject alignofObject of
        Inl e \<Rightarrow> Inl e
      | Inr ((voidPtr, startOff, endOff), s1) \<Rightarrow>
          Inr (StackPtr voidPtr (StackHeader startOff endOff), s1))"

definition NewArray :: "Build \<Rightarrow> StackAllocator \<Rightarrow> nat \<Rightarrow> nat \<Rightarrow> Alignment \<Rightarrow> StackArrayPtr result" where
  "NewArray b s objectCount sizeofObject alignofObject =
     (case AllocateInternal b 0 s (wrap b (objectCount * sizeofObject)) alignofObject of
        Inl e \<Rightarrow> Inl e
      | Inr ((voidPtr, startOff, endOff), s1) \<Rightarrow>
          Inr (StackArrayPtr voidPtr (StackArrayHeader startOff objectCount), s1))"

definition AllocateArray :: "Build \<Rightarrow> StackAllocator \<Rightarrow> nat \<Rightarrow> nat \<Rightarrow> Alignment \<Rightarrow> nat result" where
  "AllocateArray b s objectCount objectSize alignment =
     (case AllocateInternal b (sizeof_InplaceArrayHeader b) s (wrap b (objectCount * objectSize))
             alignment of
        Inl e \<Rightarrow> Inl e
      | Inr ((voidPtr, startOff, endOff), s1) \<Rightarrow>
          Inr (voidPtr,
               s1\<lparr>memory :=
                    AllocateHeader_InplaceArrayHeader b (memory s1) voidPtr startOff objectCount\<rparr>))"

text \<open>
  \<^verbatim>\<open>GetAddressFromPtr\<close>: the null check, then the ownership check. The
  null pointer is address 0. The copy in Source/StackAllocator calls the
  \<^verbatim>\<open>OwnsAddress\<close> of its base class, whose body is not among the sources;
  the model uses the one of Source/Allocators for both.
\<close>

definition GetAddressFromPtr :: "Build \<Rightarrow> StackAllocator \<Rightarrow> nat \<Rightarrow> (Error \<times> StackAllocator) + nat" where
  "GetAddressFromPtr b s ptr =
     (if nullCheck b \<and> ptr = 0 then Inl (NullPointerDeallocation, s)
      else if ownershipCheck b \<and> \<not> OwnsAddress s ptr then Inl (NotOwnedPointer, s)
      else Inr ptr)"

text \<open>
  \<^verbatim>\<open>DeallocateInternal(address, addressMarker, header)\<close>. Under BoundsCheck
  the copy in Source/Allocators reads the back guard at
  \<^verbatim>\<open>address + frontGuard->allocationSize\<close>; the copy in Source/StackAllocator
  casts \<^verbatim>\<open>frontGuardAddress\<close> itself to the back guard.
\<close>

definition DeallocateInternal :: "Build \<Rightarrow> StackAllocator \<Rightarrow> nat \<Rightarrow> nat \<Rightarrow> StackHeader \<Rightarrow> unit result" where
  "DeallocateInternal b s address addressMarker hdr =
     (let newOffset = startOffset hdr
      in if stackCheck b \<and> \<not> endOffset hdr = m_CurrentOffset s
         then Inl (OutOfOrderDeallocation, s)
         else
           let frontGuardAddress = addressMarker - sizeof_BoundGuardFront b;
               backGuardAddress =
                 (if variant b = InAllocators
                  then wrap b (address + frontGuard_allocationSize b (memory s) frontGuardAddress)
                  else frontGuardAddress)
           in if boundsCheck b \<and>
                 \<not> (frontGuard_offset (memory s) frontGuardAddress = newOffset \<and>
                    backGuard_offset (memory s) backGuardAddress = newOffset)
              then Inl (CorruptionDetected, s)
              else Inr ((), SetCurrentOffset s newOffset))"

definition Deallocate_ptr :: "Build \<Rightarrow> StackAllocator \<Rightarrow> nat \<Rightarrow> unit result" where
  "Deallocate_ptr b s ptr =
     (case GetAddressFromPtr b s ptr of
        Inl e \<Rightarrow> Inl e
      | Inr currentAddress \<Rightarrow>
          (let (hdr, addressMarker) = GetHeaderFromPtr_InplaceHeader b (memory s) currentAddress
           in DeallocateInternal b s currentAddress addressMarker hdr))"

definition Deallocate_StackPtr :: "Build \<Rightarrow> StackAllocator \<Rightarrow> StackPtr \<Rightarrow> unit result" where
  "Deallocate_StackPtr b s ptr =
     (case GetAddressFromPtr b s (GetPtr ptr) of
        Inl e \<Rightarrow> Inl e
      | Inr currentAddress \<Rightarrow>
          DeallocateInternal b s currentAddress currentAddress (header ptr))"

text \<open>
  \<^verbatim>\<open>GetEndOffset(ptrAddress, objectCount, objectSize)\<close> of
  Source/StackAllocator.
\<close>

definition GetEndOffset :: "Build \<Rightarrow> StackAllocator \<Rightarrow> nat \<Rightarrow> nat \<Rightarrow> nat \<Rightarrow> nat" where
  "GetEndOffset b s ptrAddress objectCount objectSize =
     wrap b ((ptrAddress - m_StartAddress s) + objectCount * objectSize)"

text \<open>
  Modelled from the spec: \<^verbatim>\<open>Internal::GetArrayEndOffset(address, startAddress,
  count, objectSize)\<close>, which Source/Allocators calls (Source/AllocatorUtils.hpp, not
  among the sources). The spec: array allocations recompute the end offset as
  payloadOffset + count * elementSize at deallocation time.
\<close>

definition Internal_GetArrayEndOffset :: "Build \<Rightarrow> nat \<Rightarrow> nat \<Rightarrow> nat \<Rightarrow> nat \<Rightarrow> nat" where
  "Internal_GetArrayEndOffset b ptrAddress startAddress objectCount objectSize =
     wrap b ((ptrAddress - startAddress) + objectCount * objectSize)"

definition array_endOffset :: "Build \<Rightarrow> StackAllocator \<Rightarrow> nat \<Rightarrow> nat \<Rightarrow> nat \<Rightarrow> nat" where
  "array_endOffset b s currentAddress objectCount objectSize =
     (if variant b = InAllocators
      then Internal_GetArrayEndOffset b currentAddress (m_StartAddress s) objectCount objectSize
      else GetEndOffset b s currentAddress objectCount objectSize)"

definition DeallocateArray_ptr :: "Build \<Rightarrow> StackAllocator \<Rightarrow> nat \<Rightarrow> nat \<Rightarrow> nat result" where
  "DeallocateArray_ptr b s ptr objectSize =
     (case GetAddressFromPtr b s ptr of
        Inl e \<Rightarrow> Inl e
      | Inr currentAddress \<Rightarrow>
          (let (hdr, addressMarker) =
                 GetHeaderFromPtr_InplaceArrayHeader b (memory s) currentAddress
           in case DeallocateInternal b s currentAddress addressMarker
                     (StackHeader (arrayStartOffset hdr)
                        (array_endOffset b s currentAddress (count hdr) objectSize)) of
                Inl e \<Rightarrow> Inl e
              | Inr (_, s1) \<Rightarrow> Inr (count hdr, s1)))"

definition DeallocateArray_StackArrayPtr :: "Build \<Rightarrow> StackAllocator \<Rightarrow> StackArrayPtr \<Rightarrow> nat \<Rightarrow> nat result" where
  "DeallocateArray_StackArrayPtr b s ptr objectSize =
     (case GetAddressFromPtr b s (GetArrayPtr ptr) of
        Inl e \<Rightarrow> Inl e
      | Inr currentAddress \<Rightarrow>
          (case DeallocateInternal b s currentAddress currentAddress
                  (StackHeader (arrayStartOffset (arrayHeader ptr))
                     (array_endOffset b s currentAddress (count (arrayHeader ptr)) objectSize)) of
             Inl e \<Rightarrow> Inl e
           | Inr (_, s1) \<Rightarrow> Inr (count (arrayHeader ptr), s1)))"

text \<open>
  \<^verbatim>\<open>Delete\<close> deallocates and then runs the destructor of the object, which
  touches nothing of the allocator.
\<close>

definition Delete_ptr :: "Build \<Rightarrow> StackAllocator \<Rightarrow> nat \<Rightarrow> unit result" where
  "Delete_ptr b s ptr = Deallocate_ptr b s ptr"

definition Delete_StackPtr :: "Build \<Rightarrow> StackAllocator \<Rightarrow> StackPtr \<Rightarrow> unit result" where
  "Delete_StackPtr b s ptr = Deallocate_StackPtr b s ptr"

text \<open>
  \<^verbatim>\<open>DestructArray\<close> of Source/StackAllocator:
  \<^verbatim>\<open>for (Size i = objectCount - 1; i-- > 0;) ptr[i].~Object();\<close>
  The condition compares the old \<open>i\<close> with 0 and decrements it; the body sees the
  decremented value. The result lists the indices whose destructor ran, in order.
  \<open>objectCount - 1\<close> wraps around in \<^verbatim>\<open>Size\<close> when the count is 0.
\<close>

fun DestructArray_loop :: "nat \<Rightarrow> nat list" where
  "DestructArray_loop 0 = []"
| "DestructArray_loop (Suc i) = i # DestructArray_loop i"

definition DestructArray :: "Build \<Rightarrow> nat \<Rightarrow> nat list" where
  "DestructArray b objectCount =
     DestructArray_loop
       ((objectCount + 2 ^ (8 * sizeofOffset b) - 1) mod 2 ^ (8 * sizeofOffset b))"

text \<open>
  Modelled from the spec: \<^verbatim>\<open>Internal::DestructArray(ptr, objectCount)\<close>,
  which Source/Allocators calls (Source/AllocatorUtils.hpp, not among the sources). The
  spec: \<^verbatim>\<open>DeleteArray\<close> destructs the elements in reverse index order.
\<close>

definition Internal_DestructArray :: "nat \<Rightarrow> nat list" where
  "Internal_DestructArray objectCount = rev [0..<objectCount]"

definition destructed :: "Build \<Rightarrow> nat \<Rightarrow> nat list" where
  "destructed b objectCount =
     (if variant b = InAllocators then Internal_DestructArray objectCount
      else DestructArray b objectCount)"

definition DeleteArray_ptr :: "Build \<Rightarrow> StackAllocator \<Rightarrow> nat \<Rightarrow> nat \<Rightarrow> nat list result" where
  "DeleteArray_ptr b s ptr sizeofObject =
     (case DeallocateArray_ptr b s ptr sizeofObject of
        Inl e \<Rightarrow> Inl e
      | Inr (objectCount, s1) \<Rightarrow> Inr (destructed b objectCount, s1))"

definition DeleteArray_StackArrayPtr :: "Build \<Rightarrow> StackAllocator \<Rightarrow> StackArrayPtr \<Rightarrow> nat \<Rightarrow> nat list result" where
  "DeleteArray_StackArrayPtr b s ptr sizeofObject =
     (case DeallocateArray_StackArrayPtr b s ptr sizeofObject of
        Inl e \<Rightarrow> Inl e
      | Inr (objectCount, s1) \<Rightarrow> Inr (destructed b objectCount, s1))"

section \<open>Clients\<close>

text \<open>
  A client calls one of the four allocation functions and keeps what it got back: a raw
  pointer, a \<^verbatim>\<open>StackPtr\<close>, a \<^verbatim>\<open>StackArrayPtr\<close> (with
  \<^verbatim>\<open>sizeof(Object)\<close>, which \<^verbatim>\<open>DeleteArray\<close> passes on) or a raw
  array pointer (with the object size). It gives each back to the matching deallocation
  function.
\<close>

datatype Request =
  CallAllocate nat Alignment
  | CallNew nat Alignment
  | CallNewArray nat nat Alignment
  | CallAllocateArray nat nat Alignment

datatype Allocation =
  Raw nat
  | Handle StackPtr
  | ArrayHandle StackArrayPtr nat
  | RawArray nat nat

definition map_result :: "('a \<Rightarrow> 'b) \<Rightarrow> 'a result \<Rightarrow> 'b result" where
  "map_result f r = (case r of Inl e \<Rightarrow> Inl e | Inr (x, s) \<Rightarrow> Inr (f x, s))"

definition discard :: "'a \<Rightarrow> unit" where
  "discard x = ()"

fun call :: "Build \<Rightarrow> StackAllocator \<Rightarrow> Request \<Rightarrow> Allocation result" where
  "call b s (CallAllocate sz al) = map_result Raw (Allocate b s sz al)"
| "call b s (CallNew sz al) = map_result Handle (New b s sz al)"
| "call b s (CallNewArray n sz al) =
     map_result (\<lambda>h. ArrayHandle h sz) (NewArray b s n sz al)"
| "call b s (CallAllocateArray n sz al) =
     map_result (\<lambda>p. RawArray p sz) (AllocateArray b s n sz al)"

fun release :: "Build \<Rightarrow> StackAllocator \<Rightarrow> Allocation \<Rightarrow> unit result" where
  "release b s (Raw p) = Deallocate_ptr b s p"
| "release b s (Handle h) = Deallocate_StackPtr b s h"
| "release b s (ArrayHandle h sz) = map_result discard (DeallocateArray_StackArrayPtr b s h sz)"
| "release b s (RawArray p sz) = map_result discard (DeallocateArray_ptr b s p sz)"

fun payload :: "Allocation \<Rightarrow> nat" where
  "payload (Raw p) = p"
| "payload (Handle h) = GetPtr h"
| "payload (ArrayHandle h sz) = GetArrayPtr h"
| "payload (RawArray p sz) = p"

text \<open>
  What a request hands to \<^verbatim>\<open>AllocateInternal\<close>: the size of the
  in-place header, the alignment, and the number of bytes asked for, before it is cut to
  the width of \<^verbatim>\<open>Size\<close>.
\<close>

fun req_header :: "Build \<Rightarrow> Request \<Rightarrow> nat" where
  "req_header b (CallAllocate sz al) = sizeof_InplaceHeader b"
| "req_header b (CallNew sz al) = 0"
| "req_header b (CallNewArray n sz al) = 0"
| "req_header b (CallAllocateArray n sz al) = sizeof_InplaceArrayHeader b"

fun req_alignment :: "Request \<Rightarrow> Alignment" where
  "req_alignment (CallAllocate sz al) = al"
| "req_alignment (CallNew sz al) = al"
| "req_alignment (CallNewArray n sz al) = al"
| "req_alignment (CallAllocateArray n sz al) = al"

fun req_bytes :: "Request \<Rightarrow> nat" where
  "req_bytes (CallAllocate sz al) = sz"
| "req_bytes (CallNew sz al) = sz"
| "req_bytes (CallNewArray n sz al) = n * sz"
| "req_bytes (CallAllocateArray n sz al) = n * sz"

text \<open>
  A request \<open>fits\<close> in a state when nothing it makes the allocator compute wraps
  around: the address right after the payload and a back guard, start address plus
  offset plus padding plus bytes plus \<^verbatim>\<open>sizeof(BoundGuardBack)\<close>, is
  below \<open>Size_range\<close>. \<open>all_fit\<close> says so of every request of a sequence,
  each in the state its predecessors leave.
\<close>

definition fits :: "Build \<Rightarrow> StackAllocator \<Rightarrow> Request \<Rightarrow> bool" where
  "fits b s r \<longleftrightarrow>
     m_StartAddress s + m_CurrentOffset s
       + CalculateAlignedPaddingWithHeader (m_StartAddress s + m_CurrentOffset s)
           (req_alignment r) (GetTotalHeaderSize b (req_header b r))
       + req_bytes r + sizeof_BoundGuardBack b
     < Size_range b"

fun all_fit :: "Build \<Rightarrow> StackAllocator \<Rightarrow> Request list \<Rightarrow> bool" where
  "all_fit b s [] \<longleftrightarrow> True"
| "all_fit b s (r # rs) \<longleftrightarrow>
     fits b s r \<and> (case call b s r of Inl e \<Rightarrow> True | Inr (a, s1) \<Rightarrow> all_fit b s1 rs)"

text \<open>
  \<open>allocate_all\<close> makes the calls in order and returns the allocations, the most
  recent first; \<open>release_all\<close> gives allocations back in the order of the list;
  \<open>unwind\<close> allocates and then gives everything back in reverse order of allocation.
\<close>

fun allocate_all :: "Build \<Rightarrow> StackAllocator \<Rightarrow> Request list \<Rightarrow> Allocation list result" where
  "allocate_all b s [] = Inr ([], s)"
| "allocate_all b s (r # rs) =
     (case call b s r of
        Inl e \<Rightarrow> Inl e
      | Inr (a, s1) \<Rightarrow>
          (case allocate_all b s1 rs of
             Inl e \<Rightarrow> Inl e
           | Inr (as, s2) \<Rightarrow> Inr (as @ [a], s2)))"






text \<open>
  \<open>replay\<close> makes the calls in order and records, for each, the offset of the payload
  in the arena and \<^verbatim>\<open>m_CurrentOffset\<close> after the call; it ends with the error
  of the call that aborted, if one did.
\<close>

fun replay :: "Build \<Rightarrow> StackAllocator \<Rightarrow> Request list \<Rightarrow> (Error + nat \<times> nat) list" where
  "replay b s [] = []"
| "replay b s (r # rs) =
     (case call b s r of
        Inl (e, _) \<Rightarrow> [Inl e]
      | Inr (a, s1) \<Rightarrow>
          Inr (payload a - m_StartAddress s1, m_CurrentOffset s1) # replay b s1 rs)"

text \<open>
  A client that allocates, resets and gives back live allocations in any order. It keeps
  its live allocations, the most recent first. Giving back the \<open>k\<close>-th of them rolls
  the stack back over the more recent ones too, so they stop being live; a client with
  fewer live allocations has nothing to give back.
\<close>

datatype Op = DoCall Request | DoRelease nat | DoReset

fun step :: "Build \<Rightarrow> Allocation list \<times> StackAllocator \<Rightarrow> Op \<Rightarrow> Allocation list result" where
  "step b (live, s) (DoCall r) =
     (case call b s r of
        Inl e \<Rightarrow> Inl e
      | Inr (a, s1) \<Rightarrow> Inr (a # live, s1))"
| "step b (live, s) (DoRelease k) =
     (if k < length live
      then (case release b s (live ! k) of
              Inl e \<Rightarrow> Inl e
            | Inr (_, s1) \<Rightarrow> Inr (drop (Suc k) live, s1))
      else Inr (live, s))"
| "step b (live, s) DoReset = Inr ([], Reset s)"

fun run :: "Build \<Rightarrow> Allocation list \<times> StackAllocator \<Rightarrow> Op list \<Rightarrow> Allocation list result" where
  "run b c [] = Inr c"
| "run b c (x # xs) =
     (case step b c x of
        Inl e \<Rightarrow> Inl e
      | Inr c1 \<Rightarrow> run b c1 xs)"

text \<open>A write of the client through a pointer.\<close>

definition poke :: "StackAllocator \<Rightarrow> nat \<Rightarrow> nat \<Rightarrow> StackAllocator" where
  "poke s address v = s\<lparr>memory := (memory s)(address := v)\<rparr>"

text \<open>
  Concrete builds and a concrete arena for the examples: every check compiled in or
  every check compiled out, 8-byte fields, and an arena of 256 bytes at address 64 whose
  memory holds 170 everywhere before the allocator writes to it.
\<close>

definition allChecks :: "Variant \<Rightarrow> Build" where
  "allChecks v =
     \<lparr>variant = v, sizeCheck = True, boundsCheck = True, stackCheck = True, nullCheck = True,
      ownershipCheck = True, sizeofOffset = 8\<rparr>"

definition noChecks :: "Variant \<Rightarrow> Build" where
  "noChecks v =
     \<lparr>variant = v, sizeCheck = False, boundsCheck = False, stackCheck = False,
      nullCheck = False, ownershipCheck = False, sizeofOffset = 8\<rparr>"

definition uninitialised :: "nat \<Rightarrow> nat" where
  "uninitialised address = 170"

definition arena :: StackAllocator where
  "arena = StackAllocator_new 64 256 uninitialised"

definition returned :: "'a result \<Rightarrow> 'a option" where
  "returned r = (case r of Inl _ \<Rightarrow> None | Inr (x, _) \<Rightarrow> Some x)"


section \<open>Auxiliary definitions for the proofs\<close>

text \<open>
  What a committed \<^verbatim>\<open>AllocateInternal\<close> computes: the padding, the sum
  it checks against the size of the arena, the new offset, and the memory with the guards
  written. \<open>req_size\<close> is the size a request passes to it.
\<close>

definition alloc_padding :: "Build \<Rightarrow> nat \<Rightarrow> StackAllocator \<Rightarrow> Alignment \<Rightarrow> nat" where
  "alloc_padding b headerSize s al =
     CalculateAlignedPaddingWithHeader (m_StartAddress s + m_CurrentOffset s) al
       (GetTotalHeaderSize b headerSize)"

definition alloc_total :: "Build \<Rightarrow> nat \<Rightarrow> StackAllocator \<Rightarrow> nat \<Rightarrow> Alignment \<Rightarrow> nat" where
  "alloc_total b headerSize s sz al =
     wrap b (m_CurrentOffset s + alloc_padding b headerSize s al + sz)"

definition alloc_offset :: "Build \<Rightarrow> nat \<Rightarrow> StackAllocator \<Rightarrow> nat \<Rightarrow> Alignment \<Rightarrow> nat" where
  "alloc_offset b headerSize s sz al =
     (if boundsCheck b \<and> variant b = InAllocators
      then wrap b (alloc_total b headerSize s sz al + sizeof_BoundGuardBack b)
      else alloc_total b headerSize s sz al)"

definition alloc_memory :: "Build \<Rightarrow> nat \<Rightarrow> StackAllocator \<Rightarrow> nat \<Rightarrow> Alignment \<Rightarrow> (nat \<Rightarrow> nat)" where
  "alloc_memory b headerSize s sz al =
     (if boundsCheck b
      then new_BoundGuardBack
             (new_BoundGuardFront b (memory s)
                (m_StartAddress s + m_CurrentOffset s + alloc_padding b headerSize s al
                   - GetTotalHeaderSize b headerSize)
                (m_CurrentOffset s) sz)
             (wrap b (m_StartAddress s + m_CurrentOffset s + alloc_padding b headerSize s al + sz))
             (m_CurrentOffset s)
      else memory s)"

fun req_size :: "Build \<Rightarrow> Request \<Rightarrow> nat" where
  "req_size b (CallAllocate sz al) = sz"
| "req_size b (CallNew sz al) = sz"
| "req_size b (CallNewArray n sz al) = wrap b (n * sz)"
| "req_size b (CallAllocateArray n sz al) = wrap b (n * sz)"

fun is_array :: "Request \<Rightarrow> bool" where
  "is_array (CallAllocate sz al) \<longleftrightarrow> False"
| "is_array (CallNew sz al) \<longleftrightarrow> False"
| "is_array (CallNewArray n sz al) \<longleftrightarrow> True"
| "is_array (CallAllocateArray n sz al) \<longleftrightarrow> True"

text \<open>
  \<open>release_header\<close> is the header that \<open>release\<close> hands to
  \<^verbatim>\<open>DeallocateInternal\<close>, \<open>rollback\<close> its \<open>startOffset\<close>.
  An allocation is \<open>settled\<close> below a bound when its in-place header, if it has
  one, lies in front of the payload and the payload starts no later than the bound.
  \<open>view\<close> is the part of the state an allocation depends on.
\<close>

fun release_header :: "Build \<Rightarrow> StackAllocator \<Rightarrow> Allocation \<Rightarrow> StackHeader" where
  "release_header b s (Raw p) = fst (GetHeaderFromPtr_InplaceHeader b (memory s) p)"
| "release_header b s (Handle h) = header h"
| "release_header b s (ArrayHandle h sz) =
     StackHeader (arrayStartOffset (arrayHeader h))
       (array_endOffset b s (GetArrayPtr h) (count (arrayHeader h)) sz)"
| "release_header b s (RawArray p sz) =
     StackHeader (arrayStartOffset (fst (GetHeaderFromPtr_InplaceArrayHeader b (memory s) p)))
       (array_endOffset b s p (count (fst (GetHeaderFromPtr_InplaceArrayHeader b (memory s) p))) sz)"

fun rollback :: "Build \<Rightarrow> (nat \<Rightarrow> nat) \<Rightarrow> Allocation \<Rightarrow> nat" where
  "rollback b mem (Raw p) = startOffset (fst (GetHeaderFromPtr_InplaceHeader b mem p))"
| "rollback b mem (Handle h) = startOffset (header h)"
| "rollback b mem (ArrayHandle h sz) = arrayStartOffset (arrayHeader h)"
| "rollback b mem (RawArray p sz) =
     arrayStartOffset (fst (GetHeaderFromPtr_InplaceArrayHeader b mem p))"

fun settled :: "Build \<Rightarrow> Allocation \<Rightarrow> nat \<Rightarrow> bool" where
  "settled b (Raw p) bound \<longleftrightarrow> sizeof_InplaceHeader b \<le> p \<and> p \<le> bound"
| "settled b (Handle h) bound \<longleftrightarrow> True"
| "settled b (ArrayHandle h sz) bound \<longleftrightarrow> True"
| "settled b (RawArray p sz) bound \<longleftrightarrow> sizeof_InplaceArrayHeader b \<le> p \<and> p \<le> bound"

definition view :: "StackAllocator \<Rightarrow> nat \<times> nat \<times> nat" where
  "view s = (m_StartAddress s, totalSize s, m_CurrentOffset s)"

section \<open>Basic facts\<close>

subsection \<open>Alignment and padding\<close>

lemma value_of_pos: "0 < value_of al"
  by (cases al) simp

lemma CalculateAlignedAddress_ge: "baseAddress \<le> CalculateAlignedAddress baseAddress al"
proof -
  let ?a = "value_of al"
  have pos: "0 < ?a" by (rule value_of_pos)
  have "(baseAddress + ?a - 1) mod ?a < ?a" using pos by simp
  moreover have "(baseAddress + ?a - 1) div ?a * ?a + (baseAddress + ?a - 1) mod ?a
                 = baseAddress + ?a - 1"
    by simp
  ultimately show ?thesis
    unfolding CalculateAlignedAddress_def by linarith
qed

lemma padding_ge_header:
  "headerSize \<le> CalculateAlignedPaddingWithHeader baseAddress al headerSize"
  using CalculateAlignedAddress_ge [of "baseAddress + headerSize" al]
  by (simp add: CalculateAlignedPaddingWithHeader_def)

lemma padding_no_header:
  "CalculateAlignedPaddingWithHeader baseAddress al 0
   = CalculateAlignedAddress baseAddress al - baseAddress"
  by (simp add: CalculateAlignedPaddingWithHeader_def)

lemma wrap_id: "n < Size_range b \<Longrightarrow> wrap b n = n"
  by (simp add: wrap_def)

lemma wrap_less: "wrap b n < Size_range b"
  by (simp add: wrap_def Size_range_def)

subsection \<open>Allocation\<close>

lemma AllocateInternal_eq:
  "AllocateInternal b headerSize s sz al =
     (if sizeCheck b \<and> totalSize s < alloc_total b headerSize s sz al
      then Inl (OutOfMemory, s)
      else Inr ((m_StartAddress s + m_CurrentOffset s + alloc_padding b headerSize s al,
                 m_CurrentOffset s, alloc_offset b headerSize s sz al),
                s\<lparr>m_CurrentOffset := alloc_offset b headerSize s sz al,
                  usedSize := alloc_offset b headerSize s sz al,
                  memory := alloc_memory b headerSize s sz al\<rparr>))"
proof (cases "GetTotalHeaderSize b headerSize > 0")
  case True
  then show ?thesis
    by (simp add: AllocateInternal_def Let_def alloc_padding_def alloc_memory_def
        alloc_offset_def alloc_total_def SetCurrentOffset_def SetUsedSize_def GetTotalSize_def
        not_le)
next
  case False
  define base where "base = m_StartAddress s + m_CurrentOffset s"
  define A where "A = CalculateAlignedAddress base al"
  have ge: "base \<le> A"
    unfolding A_def by (rule CalculateAlignedAddress_ge)
  have pad: "alloc_padding b headerSize s al = A - base"
    using False by (simp add: alloc_padding_def padding_no_header A_def base_def)
  have addr: "m_StartAddress s + (m_CurrentOffset s + (A - (m_StartAddress s + m_CurrentOffset s))) = A"
    using ge by (simp add: base_def)
  show ?thesis
    using False
    unfolding AllocateInternal_def Let_def alloc_memory_def alloc_offset_def alloc_total_def pad
      base_def [symmetric] A_def [symmetric]
    by (simp add: SetCurrentOffset_def SetUsedSize_def GetTotalSize_def not_le base_def
        add.assoc addr)
qed

lemma alloc_padding_ge: "GetTotalHeaderSize b h \<le> alloc_padding b h s al"
  by (simp add: alloc_padding_def padding_ge_header)

lemma header_le_total: "h \<le> GetTotalHeaderSize b h"
  by (simp add: GetTotalHeaderSize_def)

lemma call_Inl:
  assumes "call b s r = Inl (e, t)"
  shows "e = OutOfMemory \<and> t = s \<and> sizeCheck b \<and>
         totalSize s < alloc_total b (req_header b r) s (req_size b r) (req_alignment r)"
  using assms
  by (cases r) (auto simp: Allocate_def New_def NewArray_def AllocateArray_def
      map_result_def AllocateInternal_eq split: if_splits)

lemma call_Inr_state:
  assumes "call b s r = Inr (a, s')"
  shows "m_StartAddress s' = m_StartAddress s"
    and "totalSize s' = totalSize s"
    and "m_CurrentOffset s' = alloc_offset b (req_header b r) s (req_size b r) (req_alignment r)"
    and "usedSize s' = m_CurrentOffset s'"
    and "payload a = m_StartAddress s + m_CurrentOffset s
                       + alloc_padding b (req_header b r) s (req_alignment r)"
    and "sizeCheck b \<Longrightarrow>
         alloc_total b (req_header b r) s (req_size b r) (req_alignment r) \<le> totalSize s"
  using assms
  by (cases r; auto simp: Allocate_def New_def NewArray_def AllocateArray_def
      map_result_def AllocateInternal_eq split: if_splits)+

text \<open>A request that fits makes the allocator compute what the exact sums give.\<close>

lemma fits_unwrap:
  assumes "fits b s r"
  shows "req_size b r = req_bytes r"
    and "alloc_total b (req_header b r) s (req_size b r) (req_alignment r)
         = m_CurrentOffset s + alloc_padding b (req_header b r) s (req_alignment r) + req_bytes r"
    and "alloc_offset b (req_header b r) s (req_size b r) (req_alignment r)
         = m_CurrentOffset s + alloc_padding b (req_header b r) s (req_alignment r) + req_bytes r
           + (if boundsCheck b \<and> variant b = InAllocators then sizeof_BoundGuardBack b else 0)"
    and "wrap b (m_StartAddress s + m_CurrentOffset s
                 + alloc_padding b (req_header b r) s (req_alignment r) + req_size b r)
         = m_StartAddress s + m_CurrentOffset s
             + alloc_padding b (req_header b r) s (req_alignment r) + req_bytes r"
proof -
  let ?p = "alloc_padding b (req_header b r) s (req_alignment r)"
  have f: "m_StartAddress s + m_CurrentOffset s + ?p + req_bytes r + sizeof_BoundGuardBack b
           < Size_range b"
    using assms by (simp add: fits_def alloc_padding_def)
  then have "req_bytes r < Size_range b" by simp
  then show 1: "req_size b r = req_bytes r"
    by (cases r) (simp_all add: wrap_id)
  have "m_CurrentOffset s + ?p + req_bytes r < Size_range b" using f by simp
  then show 2: "alloc_total b (req_header b r) s (req_size b r) (req_alignment r)
         = m_CurrentOffset s + ?p + req_bytes r"
    by (simp add: alloc_total_def 1 wrap_id)
  have "m_CurrentOffset s + ?p + req_bytes r + sizeof_BoundGuardBack b < Size_range b"
    using f by simp
  then show "alloc_offset b (req_header b r) s (req_size b r) (req_alignment r)
         = m_CurrentOffset s + ?p + req_bytes r
           + (if boundsCheck b \<and> variant b = InAllocators then sizeof_BoundGuardBack b else 0)"
    by (simp add: alloc_offset_def 2 wrap_id)
  have "m_StartAddress s + m_CurrentOffset s + ?p + req_bytes r < Size_range b"
    using f by simp
  then show "wrap b (m_StartAddress s + m_CurrentOffset s + ?p + req_size b r)
         = m_StartAddress s + m_CurrentOffset s + ?p + req_bytes r"
    by (simp add: 1 wrap_id)
qed

lemma call_Inr_mono:
  assumes "call b s r = Inr (a, s')" and "fits b s r"
  shows "m_CurrentOffset s \<le> m_CurrentOffset s'"
  using call_Inr_state(3) [OF assms(1)] fits_unwrap(3) [OF assms(2)] by simp

lemma call_Inr_frame:
  assumes "call b s r = Inr (a, s')" and "fits b s r"
    and "x < m_StartAddress s + m_CurrentOffset s"
  shows "memory s' x = memory s x"
proof -
  let ?h = "req_header b r"
  let ?p = "alloc_padding b ?h s (req_alignment r)"
  have t: "GetTotalHeaderSize b ?h \<le> ?p"
    by (rule alloc_padding_ge)
  have p: "?h \<le> ?p"
    using t header_le_total [of ?h b] by simp
  have g: "alloc_memory b ?h s (req_size b r) (req_alignment r) x = memory s x"
    using assms(3) t fits_unwrap(4) [OF assms(2)]
    by (auto simp: alloc_memory_def new_BoundGuardBack_def new_BoundGuardFront_def)
  show ?thesis
    using assms(1,3) p g
    by (cases r; auto simp: Allocate_def New_def NewArray_def AllocateArray_def
      map_result_def AllocateInternal_eq
      AllocateHeader_InplaceHeader_def AllocateHeader_InplaceArrayHeader_def Let_def
      split: if_splits)
qed


lemma call_Inr_settled:
  assumes "call b s r = Inr (a, s')" and "fits b s r"
  shows "settled b a (m_StartAddress s + m_CurrentOffset s')"
proof -
  let ?p = "alloc_padding b (req_header b r) s (req_alignment r)"
  have p: "req_header b r \<le> ?p"
    using alloc_padding_ge [of b "req_header b r" s "req_alignment r"]
      header_le_total [of "req_header b r" b] by simp
  have le: "m_CurrentOffset s + ?p \<le> m_CurrentOffset s'"
    using call_Inr_state(3) [OF assms(1)] fits_unwrap(3) [OF assms(2)] by simp
  have pl: "payload a = m_StartAddress s + m_CurrentOffset s + ?p"
    by (rule call_Inr_state(5) [OF assms(1)])
  show ?thesis
    using assms(1) p le pl
    by (cases r; cases a; auto simp: Allocate_def New_def NewArray_def AllocateArray_def
      map_result_def split: sum.splits prod.splits)
qed

lemma allocate_all_frame:
  assumes "allocate_all b s rs = Inr (as, s1)" and "all_fit b s rs"
  shows "m_StartAddress s1 = m_StartAddress s \<and> m_CurrentOffset s \<le> m_CurrentOffset s1 \<and>
         (\<forall>x < m_StartAddress s + m_CurrentOffset s. memory s1 x = memory s x)"
  using assms
proof (induction rs arbitrary: s as)
  case Nil
  then show ?case by simp
next
  case (Cons r rs)
  from Cons.prems(1) obtain a s' as' where
    c: "call b s r = Inr (a, s')" and r: "allocate_all b s' rs = Inr (as', s1)"
    by (auto split: sum.splits)
  from Cons.prems(2) c have f: "fits b s r" and af: "all_fit b s' rs"
    by simp_all
  have s': "m_StartAddress s' = m_StartAddress s" "m_CurrentOffset s \<le> m_CurrentOffset s'"
    using call_Inr_state(1) [OF c] call_Inr_mono [OF c f] by simp_all
  have fr: "\<forall>x < m_StartAddress s + m_CurrentOffset s. memory s' x = memory s x"
    using call_Inr_frame [OF c f] by simp
  from Cons.IH [OF r af] s' fr show ?case by auto
qed

subsection \<open>Deallocation\<close>

lemma DeallocateInternal_Inr:
  assumes "DeallocateInternal b s address marker hdr = Inr (u, s')"
  shows "s' = s\<lparr>m_CurrentOffset := startOffset hdr, usedSize := startOffset hdr\<rparr>"
    and "stackCheck b \<Longrightarrow> endOffset hdr = m_CurrentOffset s"
  using assms
  by (auto simp: DeallocateInternal_def Let_def SetCurrentOffset_def SetUsedSize_def
      split: if_splits)

lemma DeallocateInternal_Inl:
  assumes "DeallocateInternal b s address marker hdr = Inl (e, t)"
  shows "t = s \<and> (e = OutOfOrderDeallocation \<or> e = CorruptionDetected)"
  using assms
  by (auto simp: DeallocateInternal_def Let_def split: if_splits)

lemma DeallocateInternal_StackCheck:
  assumes "stackCheck b"
  shows "failure (DeallocateInternal b s address marker hdr) = Some OutOfOrderDeallocation
         \<longleftrightarrow> endOffset hdr \<noteq> m_CurrentOffset s"
  using assms by (auto simp: DeallocateInternal_def Let_def failure_def)

lemma DeallocateInternal_not_NotOwned:
  "failure (DeallocateInternal b s address marker hdr) \<noteq> Some NotOwnedPointer"
  by (auto simp: DeallocateInternal_def Let_def failure_def)

lemma DeallocateInternal_guards_InAllocators:
  assumes "boundsCheck b" and "variant b = InAllocators"
    and "stackCheck b \<longrightarrow> endOffset hdr = m_CurrentOffset s"
  shows "failure (DeallocateInternal b s address marker hdr) = Some CorruptionDetected
         \<longleftrightarrow> memory s (marker - sizeof_BoundGuardFront b) \<noteq> startOffset hdr \<or>
             memory s (wrap b (address
                 + memory s (marker - sizeof_BoundGuardFront b + sizeofOffset b)))
               \<noteq> startOffset hdr"
  using assms
  by (auto simp: DeallocateInternal_def Let_def failure_def frontGuard_offset_def
      frontGuard_allocationSize_def backGuard_offset_def)

lemma DeallocateInternal_guards_InStackAllocator:
  assumes "boundsCheck b" and "variant b = InStackAllocator"
    and "stackCheck b \<longrightarrow> endOffset hdr = m_CurrentOffset s"
  shows "failure (DeallocateInternal b s address marker hdr) = Some CorruptionDetected
         \<longleftrightarrow> memory s (marker - sizeof_BoundGuardFront b) \<noteq> startOffset hdr"
  using assms
  by (auto simp: DeallocateInternal_def Let_def failure_def frontGuard_offset_def
      frontGuard_allocationSize_def backGuard_offset_def)

lemma GetAddressFromPtr_Inr: "GetAddressFromPtr b s p = Inr x \<Longrightarrow> x = p"
  by (auto simp: GetAddressFromPtr_def split: if_splits)

lemma GetAddressFromPtr_Inl:
  "GetAddressFromPtr b s p = Inl (e, t) \<Longrightarrow>
     t = s \<and> (e = NullPointerDeallocation \<or> e = NotOwnedPointer)"
  by (auto simp: GetAddressFromPtr_def split: if_splits)

lemma release_Inr:
  assumes "release b s a = Inr (u, s')"
  shows "s' = s\<lparr>m_CurrentOffset := rollback b (memory s) a,
                  usedSize := rollback b (memory s) a\<rparr>"
  using assms
  by (cases a) (auto simp: Deallocate_ptr_def Deallocate_StackPtr_def
      DeallocateArray_ptr_def DeallocateArray_StackArrayPtr_def map_result_def
      dest!: DeallocateInternal_Inr(1) GetAddressFromPtr_Inr
      split: sum.splits prod.splits)

lemma release_Inl:
  assumes "release b s a = Inl (e, t)"
  shows "t = s"
  using assms
  by (cases a) (auto simp: Deallocate_ptr_def Deallocate_StackPtr_def
      DeallocateArray_ptr_def DeallocateArray_StackArrayPtr_def map_result_def
      dest!: DeallocateInternal_Inl GetAddressFromPtr_Inl
      split: sum.splits prod.splits)



lemma release_header_cong:
  assumes "settled b a bound" and "\<forall>x<bound. memory t x = memory s x"
    and "m_StartAddress t = m_StartAddress s" and "0 < sizeofOffset b"
  shows "release_header b t a = release_header b s a"
  using assms
  by (cases a) (auto simp: GetHeaderFromPtr_InplaceHeader_def
      GetHeaderFromPtr_InplaceArrayHeader_def Let_def sizeof_InplaceHeader_def
      sizeof_InplaceArrayHeader_def GetEndOffset_def Internal_GetArrayEndOffset_def
      array_endOffset_def split: if_splits)

subsection \<open>Unfolding the model on concrete inputs\<close>

lemmas build_simps = allChecks_def noChecks_def

lemmas arena_simps = arena_def StackAllocator_new_def uninitialised_def

lemmas layout_simps =
  sizeof_InplaceHeader_def sizeof_InplaceArrayHeader_def sizeof_BoundGuardFront_def
  sizeof_BoundGuardBack_def GetTotalHeaderSize_def CalculateAlignedPaddingWithHeader_def
  CalculateAlignedAddress_def wrap_def Size_range_def

lemmas alloc_simps =
  AllocateInternal_def Allocate_def New_def NewArray_def AllocateArray_def
  SetCurrentOffset_def SetUsedSize_def GetTotalSize_def GetUsedSize_def Let_def
  new_BoundGuardFront_def new_BoundGuardBack_def AllocateHeader_InplaceHeader_def
  AllocateHeader_InplaceArrayHeader_def map_result_def

lemmas dealloc_simps =
  DeallocateInternal_def Deallocate_ptr_def Deallocate_StackPtr_def DeallocateArray_ptr_def
  DeallocateArray_StackArrayPtr_def GetAddressFromPtr_def OwnsAddress_def m_EndAddress_def
  GetHeaderFromPtr_InplaceHeader_def GetHeaderFromPtr_InplaceArrayHeader_def GetEndOffset_def
  Internal_GetArrayEndOffset_def array_endOffset_def frontGuard_offset_def frontGuard_allocationSize_def backGuard_offset_def discard_def

lemmas observe_simps = failure_def stateAfter_def returned_def

section \<open>C1: the stack check\<close>

text \<open>
  Under StackCheck a deallocation that got past the null and ownership checks aborts with
  OutOfOrderDeallocation exactly when the end offset of its header differs from
  \<^verbatim>\<open>m_CurrentOffset\<close>. Where no computation wraps around, an allocation
  that later allocations have buried is therefore rejected, and the latest allocation
  passes the check, unless it is an array allocated by Source/Allocators under BoundsCheck.
\<close>

lemma release_OutOfOrder_iff:
  assumes "stackCheck b" and "failure (GetAddressFromPtr b s (payload a)) = None"
  shows "failure (release b s a) = Some OutOfOrderDeallocation
         \<longleftrightarrow> endOffset (release_header b s a) \<noteq> m_CurrentOffset s"
proof -
  from assms(2) have g: "GetAddressFromPtr b s (payload a) = Inr (payload a)"
    by (auto simp: failure_def GetAddressFromPtr_def split: if_splits)
  have d: "failure (DeallocateInternal b s ad mk hd) = Some OutOfOrderDeallocation
           \<longleftrightarrow> endOffset hd \<noteq> m_CurrentOffset s" for ad mk hd
    by (rule DeallocateInternal_StackCheck [OF assms(1)])
  have m: "failure (map_result f (case r of Inl e \<Rightarrow> Inl e | Inr (u, s1) \<Rightarrow> Inr (c, s1)))
           = failure r" for f :: "nat \<Rightarrow> unit" and r :: "unit result" and c
    by (auto simp: map_result_def failure_def split: sum.splits prod.splits)
  show ?thesis
    using g d
    by (cases a) (simp_all add: Deallocate_ptr_def Deallocate_StackPtr_def
        DeallocateArray_ptr_def DeallocateArray_StackArrayPtr_def m Let_def
        split: prod.splits)
qed

lemma call_Inr_endOffset:
  assumes "call b s r = Inr (a, s1)" and "stackCheck b" and "0 < sizeofOffset b"
    and "fits b s r"
  shows "endOffset (release_header b s1 a)
         = (if is_array r
            then m_CurrentOffset s + alloc_padding b (req_header b r) s (req_alignment r)
                   + req_bytes r
            else m_CurrentOffset s1)"
proof -
  let ?p = "alloc_padding b (req_header b r) s (req_alignment r)"
  have "m_CurrentOffset s + ?p + req_bytes r < Size_range b"
    using assms(4) by (simp add: fits_def alloc_padding_def)
  then have w: "wrap b (m_CurrentOffset s + ?p + req_bytes r)
                = m_CurrentOffset s + ?p + req_bytes r"
    by (rule wrap_id)
  show ?thesis
    using assms(1-3) w
    by (cases r; auto simp: Allocate_def New_def NewArray_def AllocateArray_def
      map_result_def AllocateInternal_eq GetEndOffset_def Internal_GetArrayEndOffset_def
      array_endOffset_def
      AllocateHeader_InplaceHeader_def AllocateHeader_InplaceArrayHeader_def Let_def
      GetHeaderFromPtr_InplaceHeader_def GetHeaderFromPtr_InplaceArrayHeader_def
      add.assoc split: if_splits)
qed

lemma latest_allocation_passes_StackCheck:
  assumes "call b s r = Inr (a, s1)" and "stackCheck b" and "0 < sizeofOffset b"
    and "fits b s r"
    and "\<not> (is_array r \<and> boundsCheck b \<and> variant b = InAllocators)"
    and "failure (GetAddressFromPtr b s1 (payload a)) = None"
  shows "failure (release b s1 a) \<noteq> Some OutOfOrderDeallocation"
proof -
  have "endOffset (release_header b s1 a) = m_CurrentOffset s1"
    using call_Inr_endOffset [OF assms(1-4)] call_Inr_state(3) [OF assms(1)]
      fits_unwrap(3) [OF assms(4)] assms(5)
    by auto
  then show ?thesis
    using release_OutOfOrder_iff [OF assms(2,6)] by simp
qed

lemma older_allocation_is_rejected:
  assumes "call b s r = Inr (a, s1)" and "stackCheck b" and "0 < sizeofOffset b"
    and "fits b s r"
    and "allocate_all b s1 rs = Inr (as, s2)" and "all_fit b s1 rs"
    and "m_CurrentOffset s1 < m_CurrentOffset s2"
    and "failure (GetAddressFromPtr b s2 (payload a)) = None"
  shows "failure (release b s2 a) = Some OutOfOrderDeallocation"
proof -
  note fr = allocate_all_frame [OF assms(5,6)]
  have st: "settled b a (m_StartAddress s1 + m_CurrentOffset s1)"
    using call_Inr_settled [OF assms(1,4)] call_Inr_state(1) [OF assms(1)] by simp
  have "release_header b s2 a = release_header b s1 a"
    using release_header_cong [OF st _ _ assms(3), of s2] fr by simp
  moreover have "endOffset (release_header b s1 a) \<le> m_CurrentOffset s1"
    using call_Inr_endOffset [OF assms(1-4)] call_Inr_state(3) [OF assms(1)]
      fits_unwrap(3) [OF assms(4)]
    by auto
  ultimately have "endOffset (release_header b s2 a) \<noteq> m_CurrentOffset s2"
    using assms(7) by simp
  then show ?thesis
    using release_OutOfOrder_iff [OF assms(2,8)] by simp
qed

text \<open>
  Claim C1: under StackCheck every deallocation (of an object or an array, by raw pointer
  or by handle) of anything but the most recently made live allocation aborts with
  OutOfOrderDeallocation, decided by comparing the end offset of the allocation with
  \<^verbatim>\<open>m_CurrentOffset\<close>, and deallocating the most recently made live
  allocation passes this check.

  Source/Allocators breaks the last part for arrays under BoundsCheck:
  \<^verbatim>\<open>AllocateInternal\<close> adds \<^verbatim>\<open>sizeof(BoundGuardBack)\<close>
  to the offset, and \<^verbatim>\<open>DeallocateArray\<close> recomputes the end offset as
  payload offset plus count times object size, without it. On the fresh arena, an array of
  five 4-byte objects leaves the offset at 44 and is given the end offset 36; deallocating
  it at once aborts with OutOfOrderDeallocation, by handle and by raw pointer.
\<close>

theorem latest_array_is_rejected:
  "returned (NewArray (allChecks InAllocators) arena 5 4 (PowerOfTwo 2))
     = Some (StackArrayPtr 80 (StackArrayHeader 0 5)) \<and>
   m_CurrentOffset (stateAfter (NewArray (allChecks InAllocators) arena 5 4 (PowerOfTwo 2))) = 44 \<and>
   array_endOffset (allChecks InAllocators)
     (stateAfter (NewArray (allChecks InAllocators) arena 5 4 (PowerOfTwo 2))) 80 5 4 = 36 \<and>
   failure (DeleteArray_StackArrayPtr (allChecks InAllocators)
              (stateAfter (NewArray (allChecks InAllocators) arena 5 4 (PowerOfTwo 2)))
              (StackArrayPtr 80 (StackArrayHeader 0 5)) 4) = Some OutOfOrderDeallocation \<and>
   returned (AllocateArray (allChecks InAllocators) arena 5 4 (PowerOfTwo 2)) = Some 96 \<and>
   failure (DeleteArray_ptr (allChecks InAllocators)
              (stateAfter (AllocateArray (allChecks InAllocators) arena 5 4 (PowerOfTwo 2)))
              96 4) = Some OutOfOrderDeallocation"
  by (simp add: build_simps arena_simps layout_simps alloc_simps dealloc_simps observe_simps
      DeleteArray_StackArrayPtr_def DeleteArray_ptr_def destructed_def)

text \<open>
  The result does not hinge on how \<^verbatim>\<open>Internal::GetArrayEndOffset\<close> is
  modelled. It is called with the address, the start address, the count and the object
  size. With BoundsCheck the array above has the arguments \<open>(80, 64, 5, 4)\<close> and
  needs the end offset 44; without BoundsCheck an array of the same shape allocated after
  a 16-byte object has the same arguments and needs 36. No function of the four
  arguments lets both pass the stack check.
\<close>

lemma same_arguments_different_end_offsets:
  "returned (NewArray (allChecks InAllocators) arena 5 4 (PowerOfTwo 2))
     = Some (StackArrayPtr 80 (StackArrayHeader 0 5)) \<and>
   m_CurrentOffset (stateAfter (NewArray (allChecks InAllocators) arena 5 4 (PowerOfTwo 2))) = 44 \<and>
   returned (NewArray ((allChecks InAllocators)\<lparr>boundsCheck := False\<rparr>)
      (stateAfter (New ((allChecks InAllocators)\<lparr>boundsCheck := False\<rparr>) arena 16
         (PowerOfTwo 0)))
      5 4 (PowerOfTwo 2))
     = Some (StackArrayPtr 80 (StackArrayHeader 16 5)) \<and>
   m_CurrentOffset (stateAfter (NewArray ((allChecks InAllocators)\<lparr>boundsCheck := False\<rparr>)
      (stateAfter (New ((allChecks InAllocators)\<lparr>boundsCheck := False\<rparr>) arena 16
         (PowerOfTwo 0)))
      5 4 (PowerOfTwo 2))) = 36 \<and>
   m_StartAddress arena = 64"
  by (simp add: build_simps arena_simps layout_simps alloc_simps observe_simps)

section \<open>C2: destructing an array\<close>

text \<open>
  The loop of \<^verbatim>\<open>DestructArray\<close> in Source/StackAllocator starts at
  \<open>objectCount - 1\<close> and decrements before the body runs: it destructs the indices
  \<open>objectCount - 2, \<dots>, 0\<close> and never the last element.
\<close>

lemma DestructArray_loop_pos:
  "0 < i \<Longrightarrow> DestructArray_loop i = (i - 1) # DestructArray_loop (i - 1)"
  by (cases i) simp_all

lemma DestructArray_loop_eq: "DestructArray_loop i = rev [0..<i]"
  by (induction i) simp_all

lemma DestructArray_skips_last:
  assumes "0 < objectCount" and "objectCount \<le> 2 ^ (8 * sizeofOffset b)"
  shows "DestructArray b objectCount = rev [0..<objectCount - 1]"
proof -
  define m :: nat where "m = 2 ^ (8 * sizeofOffset b)"
  have e: "objectCount + m - 1 = (objectCount - 1) + m"
    using assms(1) by arith
  have l: "objectCount - 1 < m"
    using assms unfolding m_def by arith
  have "(objectCount + m - 1) mod m = objectCount - 1"
    unfolding e using l by (simp only: mod_add_self2 mod_less)
  then show ?thesis
    unfolding DestructArray_def m_def [symmetric]
    by (simp only: DestructArray_loop_eq)
qed

text \<open>
  Claim C2: for every array made by \<^verbatim>\<open>NewArray<T>(count)\<close> with
  \<open>count \<ge> 1\<close>, \<^verbatim>\<open>DeleteArray\<close> destructs exactly
  \<open>count\<close> elements, from index \<open>count - 1\<close> down to index 0, and
  restores \<^verbatim>\<open>m_CurrentOffset\<close> to the start offset of the array.

  Source/StackAllocator restores the offset but destructs one element too few: for an
  array of five it runs the destructors of the indices 3, 2, 1, 0, and for an array of one
  it runs none.
\<close>

theorem DeleteArray_leaves_last_element:
  "returned (NewArray (allChecks InStackAllocator) arena 5 4 (PowerOfTwo 2))
     = Some (StackArrayPtr 80 (StackArrayHeader 0 5)) \<and>
   returned (DeleteArray_StackArrayPtr (allChecks InStackAllocator)
               (stateAfter (NewArray (allChecks InStackAllocator) arena 5 4 (PowerOfTwo 2)))
               (StackArrayPtr 80 (StackArrayHeader 0 5)) 4) = Some [3, 2, 1, 0] \<and>
   m_CurrentOffset (stateAfter (DeleteArray_StackArrayPtr (allChecks InStackAllocator)
               (stateAfter (NewArray (allChecks InStackAllocator) arena 5 4 (PowerOfTwo 2)))
               (StackArrayPtr 80 (StackArrayHeader 0 5)) 4)) = 0 \<and>
   DestructArray (allChecks InStackAllocator) 1 = []"
  by (simp add: build_simps arena_simps layout_simps alloc_simps dealloc_simps observe_simps
      DeleteArray_StackArrayPtr_def destructed_def DestructArray_def DestructArray_loop_pos)

section \<open>C3: the size check\<close>




section \<open>C4: the bounds check\<close>

text \<open>
  Claim C4: under BoundsCheck an allocation writes a front guard
  \<open>{offset, allocationSize}\<close> right before the header and a back guard
  \<open>{offset}\<close> right after the payload, and every deallocation reads both guards
  back and aborts with CorruptionDetected when the offset of either differs from the
  offset it rolls back to; in particular, overwriting what lies right after the payload
  before deallocating is detected.

  Source/Allocators does this (\<open>DeallocateInternal_guards_InAllocators\<close>).
  Source/StackAllocator reads the front guard a second time in place of the back guard
  (\<open>DeallocateInternal_guards_InStackAllocator\<close>): after
  \<^verbatim>\<open>Allocate(16, 8)\<close> on the fresh arena the back guard lies at address
  \<open>96 + 16\<close> and holds 0; with 999 written over it the deallocation still succeeds
  and rolls the offset back to 0, where Source/Allocators aborts with CorruptionDetected.
\<close>

theorem overwritten_back_guard_goes_unnoticed:
  "returned (Allocate (allChecks InStackAllocator) arena 16 (PowerOfTwo 3)) = Some 96 \<and>
   memory (stateAfter (Allocate (allChecks InStackAllocator) arena 16 (PowerOfTwo 3))) (96 + 16)
     = 0 \<and>
   failure (Deallocate_ptr (allChecks InStackAllocator)
              (poke (stateAfter (Allocate (allChecks InStackAllocator) arena 16 (PowerOfTwo 3)))
                 (96 + 16) 999)
              96) = None \<and>
   m_CurrentOffset (stateAfter (Deallocate_ptr (allChecks InStackAllocator)
              (poke (stateAfter (Allocate (allChecks InStackAllocator) arena 16 (PowerOfTwo 3)))
                 (96 + 16) 999)
              96)) = 0 \<and>
   failure (Deallocate_ptr (allChecks InAllocators)
              (poke (stateAfter (Allocate (allChecks InAllocators) arena 16 (PowerOfTwo 3)))
                 (96 + 16) 999)
              96) = Some CorruptionDetected"
  by (simp add: build_simps arena_simps layout_simps alloc_simps dealloc_simps observe_simps
      poke_def)

section \<open>C5: the offset stays within the arena\<close>

text \<open>
  With SizeCheck an allocation commits only when the sum it checked is within the arena,
  and that sum is the new offset, except in Source/Allocators under BoundsCheck.
\<close>

lemma call_within_arena:
  assumes "sizeCheck b" and "\<not> (boundsCheck b \<and> variant b = InAllocators)"
    and "call b s r = Inr (a, s')"
  shows "m_CurrentOffset s' \<le> totalSize s'"
  using call_Inr_state(2,3,6) [OF assms(3)] assms(1,2)
  by (auto simp: alloc_offset_def)

text \<open>
  Claim C5: in every state reached by a sequence of allocations, deallocations and resets
  whose enabled checks all pass, \<open>0 \<le> currentOffset \<le> totalSize\<close> holds, under every
  policy, BoundsCheck and its guards included.

  Source/Allocators breaks this under SizeCheck with BoundsCheck:
  \<^verbatim>\<open>AllocateInternal\<close> compares \<open>currentOffset + padding + size\<close> with
  the size of the arena and only then adds \<^verbatim>\<open>sizeof(BoundGuardBack)\<close>. On
  the fresh 256-byte arena with every check compiled in, \<^verbatim>\<open>New\<close> of an
  object of 240 bytes has the padding 16, passes the check with the sum 256 and leaves
  \<^verbatim>\<open>m_CurrentOffset\<close> at 264.
\<close>

theorem BoundGuardBack_past_the_arena:
  "failure (run (allChecks InAllocators) ([], arena) [DoCall (CallNew 240 (PowerOfTwo 0))]) = None \<and>
   m_CurrentOffset
     (stateAfter (run (allChecks InAllocators) ([], arena) [DoCall (CallNew 240 (PowerOfTwo 0))]))
     = 264 \<and>
   totalSize
     (stateAfter (run (allChecks InAllocators) ([], arena) [DoCall (CallNew 240 (PowerOfTwo 0))]))
     = 256"
  by (simp add: build_simps arena_simps layout_simps alloc_simps observe_simps)

text \<open>
  Source/StackAllocator does not add the guard to the offset and stays within the arena on
  the same input. With SizeCheck compiled out no check bounds the offset, in either copy.
\<close>

lemma BoundGuardBack_within_the_arena:
  "failure (run (allChecks InStackAllocator) ([], arena) [DoCall (CallNew 240 (PowerOfTwo 0))])
     = None \<and>
   m_CurrentOffset
     (stateAfter (run (allChecks InStackAllocator) ([], arena) [DoCall (CallNew 240 (PowerOfTwo 0))]))
     = 256"
  by (simp add: build_simps arena_simps layout_simps alloc_simps observe_simps)

lemma unchecked_offset_leaves_arena:
  "failure (run (noChecks InAllocators) ([], arena) [DoCall (CallNew 300 (PowerOfTwo 0))]) = None \<and>
   m_CurrentOffset
     (stateAfter (run (noChecks InAllocators) ([], arena) [DoCall (CallNew 300 (PowerOfTwo 0))]))
     = 300 \<and>
   totalSize
     (stateAfter (run (noChecks InAllocators) ([], arena) [DoCall (CallNew 300 (PowerOfTwo 0))]))
     = 256"
  by (simp add: build_simps arena_simps layout_simps alloc_simps observe_simps)

text \<open>
  With SizeCheck alone a sum that wraps around passes the check too. After
  \<^verbatim>\<open>New\<close> of an object of 8 bytes and \<^verbatim>\<open>Allocate(8, 8)\<close>,
  \<^verbatim>\<open>AllocateArray(2\<^sup>6\<^sup>4 - 40, 1, 1)\<close> wraps the offset around to 0
  and \<^verbatim>\<open>AllocateArray(2\<^sup>6\<^sup>3, 2, 8)\<close>, of size 0 after the product
  wraps, writes its count over the in-place header of the second allocation, whose
  deallocation then sets \<^verbatim>\<open>m_CurrentOffset\<close> to \<open>2\<^sup>6\<^sup>3\<close>.
\<close>

lemma wrapped_size_leaves_arena:
  "failure (run ((noChecks InAllocators)\<lparr>sizeCheck := True\<rparr>) ([], arena)
      [DoCall (CallNew 8 (PowerOfTwo 3)),
       DoCall (CallAllocate 8 (PowerOfTwo 3)),
       DoCall (CallAllocateArray 18446744073709551576 1 (PowerOfTwo 0)),
       DoCall (CallAllocateArray 9223372036854775808 2 (PowerOfTwo 3)),
       DoRelease 2]) = None \<and>
   m_CurrentOffset (stateAfter (run ((noChecks InAllocators)\<lparr>sizeCheck := True\<rparr>) ([], arena)
      [DoCall (CallNew 8 (PowerOfTwo 3)),
       DoCall (CallAllocate 8 (PowerOfTwo 3)),
       DoCall (CallAllocateArray 18446744073709551576 1 (PowerOfTwo 0)),
       DoCall (CallAllocateArray 9223372036854775808 2 (PowerOfTwo 3)),
       DoRelease 2])) = 9223372036854775808"
  by (simp add: build_simps arena_simps layout_simps alloc_simps dealloc_simps observe_simps)

section \<open>C6: the ownership check\<close>

text \<open>
  Claim C6, as amended: under OwnershipCheck a deallocation is rejected with
  NotOwnedPointer exactly when its pointer passed the null check and its address lies
  outside the closed range \<open>[startAddress, startAddress + totalSize]\<close>; the
  address one past the end of the arena passes. This holds for
  \<^verbatim>\<open>GetAddressFromPtr\<close> and for each of the four deallocation functions.
\<close>

theorem NotOwnedPointer_closed_range:
  assumes "ownershipCheck b"
  shows "(failure (GetAddressFromPtr b s ptr) = Some NotOwnedPointer \<longleftrightarrow>
            \<not> (nullCheck b \<and> ptr = 0) \<and>
            (ptr < m_StartAddress s \<or> m_StartAddress s + totalSize s < ptr)) \<and>
         (failure (release b s a) = Some NotOwnedPointer \<longleftrightarrow>
            \<not> (nullCheck b \<and> payload a = 0) \<and>
            (payload a < m_StartAddress s \<or> m_StartAddress s + totalSize s < payload a))"
proof -
  have g: "failure (GetAddressFromPtr b s ptr) = Some NotOwnedPointer \<longleftrightarrow>
           \<not> (nullCheck b \<and> ptr = 0) \<and>
           (ptr < m_StartAddress s \<or> m_StartAddress s + totalSize s < ptr)" for ptr
    using assms
    by (auto simp: GetAddressFromPtr_def OwnsAddress_def m_EndAddress_def failure_def)
  have r: "failure (release b s a) = Some NotOwnedPointer \<longleftrightarrow>
           failure (GetAddressFromPtr b s (payload a)) = Some NotOwnedPointer"
  proof (cases "GetAddressFromPtr b s (payload a)")
    case (Inl e)
    then show ?thesis
      by (cases a) (auto simp: Deallocate_ptr_def Deallocate_StackPtr_def
          DeallocateArray_ptr_def DeallocateArray_StackArrayPtr_def map_result_def
          failure_def)
  next
    case (Inr x)
    have n: "failure (DeallocateInternal b s ad mk hd) \<noteq> Some NotOwnedPointer" for ad mk hd
      by (rule DeallocateInternal_not_NotOwned)
    have m: "failure (map_result f (case DeallocateInternal b s ad mk hd of
                 Inl e \<Rightarrow> Inl e | Inr (u, s1) \<Rightarrow> Inr (c, s1))) \<noteq> Some NotOwnedPointer"
      for ad mk hd c and f :: "nat \<Rightarrow> unit"
      using n [of ad mk hd]
      by (auto simp: map_result_def failure_def split: sum.splits prod.splits)
    show ?thesis
      using Inr n m
      by (cases a) (auto simp: Deallocate_ptr_def Deallocate_StackPtr_def
          DeallocateArray_ptr_def DeallocateArray_StackArrayPtr_def
          failure_def [of "Inr x"] split: prod.splits)
  qed
  show ?thesis
    unfolding r using g [of ptr] g [of "payload a"] by simp
qed

text \<open>
  The claim as stated has the half-open range: the address \<open>64 + 256\<close> one past the
  end of the arena would be rejected. \<^verbatim>\<open>OwnsAddress\<close> compares with
  \<open>\<le>\<close> and accepts it.
\<close>

theorem one_past_the_end_is_owned:
  "m_StartAddress arena + totalSize arena = 320 \<and>
   OwnsAddress arena 320 \<and>
   failure (GetAddressFromPtr (allChecks InAllocators) arena 320) = None"
  by (simp add: build_simps arena_simps dealloc_simps observe_simps)

text \<open>
  On the arena the addresses 321 and 63 are rejected and 320 is not.
\<close>

theorem NotOwnedPointer_closed_range_witness:
  "ownershipCheck (allChecks InAllocators) \<and>
   failure (GetAddressFromPtr (allChecks InAllocators) arena 321) = Some NotOwnedPointer \<and>
   failure (release (allChecks InAllocators) arena (Raw 63)) = Some NotOwnedPointer \<and>
   failure (release (allChecks InAllocators) arena (Raw 320)) \<noteq> Some NotOwnedPointer"
proof -
  have o: "ownershipCheck (allChecks InAllocators)"
    by (simp add: allChecks_def)
  have n: "nullCheck (allChecks InAllocators)"
    by (simp add: allChecks_def)
  have a: "m_StartAddress arena = 64" "totalSize arena = 256"
    by (simp_all add: arena_simps)
  show ?thesis
    using NotOwnedPointer_closed_range [OF o, of arena 321 "Raw 63"]
      NotOwnedPointer_closed_range [OF o, of arena 321 "Raw 320"] o
    by (simp add: a n)
qed

section \<open>C7: unwinding in reverse order\<close>






section \<open>C8: replaying after a reset\<close>

lemma call_view:
  assumes "view s = view t"
  shows "(case call b s r of
            Inl (e, _) \<Rightarrow> call b t r = Inl (e, t)
          | Inr (a, s1) \<Rightarrow> (\<exists>t1. call b t r = Inr (a, t1) \<and> view s1 = view t1))"
proof -
  have eq: "m_StartAddress s = m_StartAddress t" "totalSize s = totalSize t"
    "m_CurrentOffset s = m_CurrentOffset t"
    using assms by (simp_all add: view_def)
  show ?thesis
    by (cases r) (simp_all add: Allocate_def New_def NewArray_def AllocateArray_def
        map_result_def AllocateInternal_eq alloc_padding_def alloc_offset_def alloc_total_def view_def eq)
qed

lemma replay_view:
  "view s = view t \<Longrightarrow> replay b s rs = replay b t rs"
proof (induction rs arbitrary: s t)
  case Nil
  show ?case by simp
next
  case (Cons r rs)
  show ?case
  proof (cases "call b s r")
    case (Inl e)
    then show ?thesis
      using call_view [OF Cons.prems, of b r] by (cases e) simp
  next
    case (Inr x)
    obtain a s1 where x: "x = (a, s1)" by (cases x)
    from Inr x call_view [OF Cons.prems, of b r]
    obtain t1 where t1: "call b t r = Inr (a, t1)" "view s1 = view t1"
      by auto
    have "replay b s1 rs = replay b t1 rs"
      by (rule Cons.IH [OF t1(2)])
    then show ?thesis
      using Inr x t1 by (simp add: view_def)
  qed
qed


lemma CalculateAlignedAddress_shift:
  assumes "value_of al dvd d"
  shows "CalculateAlignedAddress (x + d) al = CalculateAlignedAddress x al + d"
proof -
  define A where "A = value_of al"
  from assms obtain k where d: "d = k * A"
    by (auto simp: dvd_def mult.commute A_def)
  have pos: "0 < A"
    unfolding A_def by (rule value_of_pos)
  define y where "y = x + A - 1"
  have e: "x + d + A - 1 = y + k * A"
    using pos d by (simp add: y_def)
  have "(y + k * A) div A = k + y div A"
    using pos by simp
  then have "(x + d + A - 1) div A * A = (x + A - 1) div A * A + d"
    unfolding e by (simp add: d y_def algebra_simps)
  then show ?thesis
    by (simp add: CalculateAlignedAddress_def A_def)
qed

lemma alloc_padding_shift:
  assumes "value_of al dvd d" and "m_StartAddress t = m_StartAddress s + d"
    and "m_CurrentOffset t = m_CurrentOffset s"
  shows "alloc_padding b h t al = alloc_padding b h s al"
proof -
  define x where "x = m_StartAddress s + m_CurrentOffset s + GetTotalHeaderSize b h"
  have e: "m_StartAddress t + m_CurrentOffset t + GetTotalHeaderSize b h = x + d"
    using assms(2,3) by (simp add: x_def)
  have "CalculateAlignedAddress (x + d) al - (m_StartAddress t + m_CurrentOffset t)
        = CalculateAlignedAddress x al - (m_StartAddress s + m_CurrentOffset s)"
    using CalculateAlignedAddress_shift [OF assms(1), of x] assms(2,3) by simp
  then show ?thesis
    unfolding alloc_padding_def CalculateAlignedPaddingWithHeader_def e
    by (simp add: x_def)
qed

lemma call_shift:
  assumes "value_of (req_alignment r) dvd d" and "m_StartAddress t = m_StartAddress s + d"
    and "totalSize t = totalSize s" and "m_CurrentOffset t = m_CurrentOffset s"
  shows "(case call b s r of
            Inl (e, _) \<Rightarrow> call b t r = Inl (e, t)
          | Inr (a, s1) \<Rightarrow>
              (\<exists>a' t1. call b t r = Inr (a', t1) \<and> payload a' = payload a + d \<and>
                 m_StartAddress t1 = m_StartAddress s1 + d \<and> totalSize t1 = totalSize s1 \<and>
                 m_CurrentOffset t1 = m_CurrentOffset s1))"
proof -
  have p: "alloc_padding b h t (req_alignment r) = alloc_padding b h s (req_alignment r)" for h
    by (rule alloc_padding_shift [OF assms(1,2,4)])
  have tt: "alloc_total b h t sz (req_alignment r) = alloc_total b h s sz (req_alignment r)"
    for h sz
    using p [of h] assms(4) by (simp add: alloc_total_def)
  have o: "alloc_offset b h t sz (req_alignment r) = alloc_offset b h s sz (req_alignment r)"
    for h sz
    using tt [of h sz] by (simp add: alloc_offset_def)
  show ?thesis
    using p tt o assms(2-4)
    by (cases r) (simp_all add: Allocate_def New_def NewArray_def AllocateArray_def
        map_result_def AllocateInternal_eq)
qed

lemma replay_shift:
  "\<forall>r\<in>set rs. value_of (req_alignment r) dvd d \<Longrightarrow>
   m_StartAddress t = m_StartAddress s + d \<Longrightarrow> totalSize t = totalSize s \<Longrightarrow>
   m_CurrentOffset t = m_CurrentOffset s \<Longrightarrow>
   replay b t rs = replay b s rs"
proof (induction rs arbitrary: s t)
  case Nil
  show ?case by simp
next
  case (Cons r rs)
  have al: "value_of (req_alignment r) dvd d" and rest: "\<forall>r\<in>set rs. value_of (req_alignment r) dvd d"
    using Cons.prems(1) by simp_all
  note cs = call_shift [OF al Cons.prems(2-4), of b]
  show ?case
  proof (cases "call b s r")
    case (Inl e)
    then show ?thesis
      using cs by (cases e) simp
  next
    case (Inr x)
    obtain a s1 where x: "x = (a, s1)" by (cases x)
    from Inr x cs obtain a' t1 where
      t1: "call b t r = Inr (a', t1)" "payload a' = payload a + d"
        "m_StartAddress t1 = m_StartAddress s1 + d" "totalSize t1 = totalSize s1"
        "m_CurrentOffset t1 = m_CurrentOffset s1"
      by auto
    have "replay b t1 rs = replay b s1 rs"
      by (rule Cons.IH [OF rest t1(3-5)])
    then show ?thesis
      using Inr x t1 by simp
  qed
qed

text \<open>
  Claim C8, as amended: \<^verbatim>\<open>Reset()\<close> sets
  \<^verbatim>\<open>m_CurrentOffset\<close> to 0, and replaying any sequence of allocation calls
  after it gives the same payload offsets, the same values of
  \<^verbatim>\<open>m_CurrentOffset\<close> and the same failure as on a freshly constructed
  allocator of the same size, whatever the memory of either holds, when the fresh allocator
  has the same start address, or one that differs from it by a multiple of every alignment
  requested in the sequence.
\<close>

theorem Reset_replays_like_fresh:
  "m_CurrentOffset (Reset s) = 0 \<and>
   replay b (Reset s) rs
     = replay b (StackAllocator_new (m_StartAddress s) (totalSize s) mem) rs \<and>
   ((\<forall>r\<in>set rs. value_of (req_alignment r) dvd d) \<longrightarrow>
      replay b (Reset s) rs
        = replay b (StackAllocator_new (m_StartAddress s + d) (totalSize s) mem) rs \<and>
      (d \<le> m_StartAddress s \<longrightarrow>
         replay b (Reset s) rs
           = replay b (StackAllocator_new (m_StartAddress s - d) (totalSize s) mem) rs))"
proof -
  have "view (Reset s) = view (StackAllocator_new (m_StartAddress s) (totalSize s) mem)"
    by (simp add: view_def Reset_def SetCurrentOffset_def SetUsedSize_def
        StackAllocator_new_def)
  then have same: "replay b (Reset s) rs
             = replay b (StackAllocator_new (m_StartAddress s) (totalSize s) mem) rs"
    by (rule replay_view)
  have up: "replay b (Reset s) rs
            = replay b (StackAllocator_new (m_StartAddress s + d) (totalSize s) mem) rs"
    if al: "\<forall>r\<in>set rs. value_of (req_alignment r) dvd d"
    by (rule replay_shift [OF al, symmetric])
      (simp_all add: Reset_def SetCurrentOffset_def SetUsedSize_def StackAllocator_new_def)
  have down: "replay b (Reset s) rs
              = replay b (StackAllocator_new (m_StartAddress s - d) (totalSize s) mem) rs"
    if al: "\<forall>r\<in>set rs. value_of (req_alignment r) dvd d" and le: "d \<le> m_StartAddress s"
    by (rule replay_shift [OF al])
      (simp_all add: le Reset_def SetCurrentOffset_def SetUsedSize_def StackAllocator_new_def)
  show ?thesis
    using same up down by (simp add: Reset_def SetCurrentOffset_def SetUsedSize_def)
qed

text \<open>
  The claim as stated asks only for the same size. An object of alignment 32 lands at
  offset 0 after the reset of the arena at address 64, and at offset 16 in a fresh
  allocator of the same size at address 80.
\<close>

theorem Reset_differs_from_fresh_elsewhere:
  "replay (noChecks InAllocators) (Reset arena) [CallNew 8 (PowerOfTwo 5)] = [Inr (0, 8)] \<and>
   replay (noChecks InAllocators)
     (StackAllocator_new 80 (totalSize (Reset arena)) uninitialised)
     [CallNew 8 (PowerOfTwo 5)] = [Inr (16, 24)]"
  by (simp add: Reset_def build_simps arena_simps layout_simps alloc_simps)

text \<open>
  After an allocation and a reset, two calls of alignments 4 and 8 give what they give on
  fresh allocators of the same size at the addresses 64, 80 and 48.
\<close>

theorem Reset_replays_like_fresh_witness:
  "replay (allChecks InAllocators)
     (Reset (stateAfter (call (allChecks InAllocators) arena (CallNew 12 (PowerOfTwo 2)))))
     [CallAllocate 5 (PowerOfTwo 2), CallNew 300 (PowerOfTwo 3)]
     = [Inr (32, 45), Inl OutOfMemory] \<and>
   replay (allChecks InAllocators) (StackAllocator_new 64 256 uninitialised)
     [CallAllocate 5 (PowerOfTwo 2), CallNew 300 (PowerOfTwo 3)]
     = [Inr (32, 45), Inl OutOfMemory] \<and>
   replay (allChecks InAllocators) (StackAllocator_new 80 256 uninitialised)
     [CallAllocate 5 (PowerOfTwo 2), CallNew 300 (PowerOfTwo 3)]
     = [Inr (32, 45), Inl OutOfMemory] \<and>
   replay (allChecks InAllocators) (StackAllocator_new 48 256 uninitialised)
     [CallAllocate 5 (PowerOfTwo 2), CallNew 300 (PowerOfTwo 3)]
     = [Inr (32, 45), Inl OutOfMemory]"
proof -
  let ?b = "allChecks InAllocators"
  let ?s = "stateAfter (call ?b arena (CallNew 12 (PowerOfTwo 2)))"
  let ?rs = "[CallAllocate 5 (PowerOfTwo 2), CallNew 300 (PowerOfTwo 3)]"
  have s: "m_StartAddress ?s = 64" "totalSize ?s = 256"
    by (simp_all add: build_simps arena_simps layout_simps alloc_simps observe_simps)
  have al: "\<forall>r\<in>set ?rs. value_of (req_alignment r) dvd 16"
    by simp
  have fresh: "replay ?b (StackAllocator_new 64 256 uninitialised) ?rs
               = [Inr (32, 45), Inl OutOfMemory]"
    by (simp add: build_simps arena_simps layout_simps alloc_simps)
  have "replay ?b (Reset ?s) ?rs = replay ?b (StackAllocator_new 64 256 uninitialised) ?rs \<and>
        replay ?b (Reset ?s) ?rs = replay ?b (StackAllocator_new 80 256 uninitialised) ?rs \<and>
        replay ?b (Reset ?s) ?rs = replay ?b (StackAllocator_new 48 256 uninitialised) ?rs"
    using Reset_replays_like_fresh [where s = ?s and b = ?b and rs = ?rs and d = 16
        and mem = uninitialised] al
    unfolding s by (auto simp del: replay.simps call.simps)
  then show ?thesis
    using fresh by metis
qed

section \<open>C9: deallocating by pointer and by handle\<close>

text \<open>
  Claim C9, as amended: with BoundsCheck compiled out, an allocation made by
  \<^verbatim>\<open>Allocate(size, alignment)\<close> is deallocated through the raw pointer,
  which reads the in-place header back, with the same result, abort or rollback, as
  through a handle that carries its start and end offset, in every state whose memory in
  front of the payload is as the allocation left it.
\<close>

theorem raw_and_handle_deallocation_agree:
  assumes "Allocate b s0 sz al = Inr (ptr, s1)"
    and "\<not> boundsCheck b"
    and "0 < sizeofOffset b"
    and "\<forall>x<ptr. memory s x = memory s1 x"
  shows "Deallocate_ptr b s ptr
         = Deallocate_StackPtr b s
             (StackPtr ptr (StackHeader (m_CurrentOffset s0) (m_CurrentOffset s1)))"
proof -
  let ?h = "sizeof_InplaceHeader b"
  let ?p = "alloc_padding b ?h s0 al"
  have pad: "?h \<le> ?p"
    using alloc_padding_ge [of b ?h s0 al] header_le_total [of ?h b] by simp
  have ptr: "ptr = m_StartAddress s0 + m_CurrentOffset s0 + ?p"
    and off: "m_CurrentOffset s1 = alloc_offset b ?h s0 sz al"
    and mem: "memory s1
              = AllocateHeader_InplaceHeader b (alloc_memory b ?h s0 sz al) ptr
                  (m_CurrentOffset s0) (alloc_offset b ?h s0 sz al)"
    using assms(1)
    by (auto simp: Allocate_def AllocateInternal_eq split: if_splits)
  have hp: "?h \<le> ptr" using pad ptr by simp
  have w: "0 < ?h" "sizeofOffset b \<le> ?h"
    using assms(3) by (simp_all add: sizeof_InplaceHeader_def)
  have cells: "ptr - ?h < ptr" "stackCheck b \<Longrightarrow> ptr - ?h + sizeofOffset b < ptr"
    using hp w assms(3) by (auto simp: sizeof_InplaceHeader_def)
  have hdr: "fst (GetHeaderFromPtr_InplaceHeader b (memory s) ptr)
             = (if stackCheck b
                then StackHeader (m_CurrentOffset s0) (m_CurrentOffset s1)
                else StackHeader (m_CurrentOffset s0) 0)"
    using assms(3,4) cells
    by (auto simp: GetHeaderFromPtr_InplaceHeader_def Let_def mem off
        AllocateHeader_InplaceHeader_def)
  show ?thesis
    using hdr assms(2)
    by (auto simp: Deallocate_ptr_def Deallocate_StackPtr_def DeallocateInternal_def Let_def
        dest!: GetAddressFromPtr_Inr split: sum.splits prod.splits)
qed

text \<open>
  The claim as stated covers BoundsCheck. There the handle path looks for the front guard
  right before the payload, where \<^verbatim>\<open>Allocate\<close> has put the in-place
  header: straight after \<^verbatim>\<open>Allocate(16, 8)\<close> on the fresh arena the raw
  pointer is accepted and the handle with the offsets 0 and 56 of the same allocation
  aborts with CorruptionDetected.
\<close>

theorem handle_path_misreads_inplace_header:
  "returned (Allocate (allChecks InAllocators) arena 16 (PowerOfTwo 3)) = Some 96 \<and>
   m_CurrentOffset arena = 0 \<and>
   m_CurrentOffset (stateAfter (Allocate (allChecks InAllocators) arena 16 (PowerOfTwo 3))) = 56 \<and>
   failure (Deallocate_ptr (allChecks InAllocators)
              (stateAfter (Allocate (allChecks InAllocators) arena 16 (PowerOfTwo 3))) 96) = None \<and>
   failure (Deallocate_StackPtr (allChecks InAllocators)
              (stateAfter (Allocate (allChecks InAllocators) arena 16 (PowerOfTwo 3)))
              (StackPtr 96 (StackHeader 0 56))) = Some CorruptionDetected"
  by (simp add: build_simps arena_simps layout_simps alloc_simps dealloc_simps observe_simps)

text \<open>
  The same allocation with BoundsCheck compiled out, deallocated at once.
\<close>

theorem raw_and_handle_deallocation_agree_witness:
  "Allocate ((allChecks InAllocators)\<lparr>boundsCheck := False\<rparr>) arena 16 (PowerOfTwo 3)
     = Inr (80, stateAfter (Allocate ((allChecks InAllocators)\<lparr>boundsCheck := False\<rparr>)
                              arena 16 (PowerOfTwo 3))) \<and>
   \<not> boundsCheck ((allChecks InAllocators)\<lparr>boundsCheck := False\<rparr>) \<and>
   0 < sizeofOffset ((allChecks InAllocators)\<lparr>boundsCheck := False\<rparr>) \<and>
   Deallocate_ptr ((allChecks InAllocators)\<lparr>boundsCheck := False\<rparr>)
     (stateAfter (Allocate ((allChecks InAllocators)\<lparr>boundsCheck := False\<rparr>)
                    arena 16 (PowerOfTwo 3))) 80
   = Deallocate_StackPtr ((allChecks InAllocators)\<lparr>boundsCheck := False\<rparr>)
       (stateAfter (Allocate ((allChecks InAllocators)\<lparr>boundsCheck := False\<rparr>)
                      arena 16 (PowerOfTwo 3)))
       (StackPtr 80 (StackHeader 0 32)) \<and>
   failure (Deallocate_ptr ((allChecks InAllocators)\<lparr>boundsCheck := False\<rparr>)
     (stateAfter (Allocate ((allChecks InAllocators)\<lparr>boundsCheck := False\<rparr>)
                    arena 16 (PowerOfTwo 3))) 80) = None"
proof -
  let ?b = "(allChecks InAllocators)\<lparr>boundsCheck := False\<rparr>"
  let ?s1 = "stateAfter (Allocate ?b arena 16 (PowerOfTwo 3))"
  have 1: "Allocate ?b arena 16 (PowerOfTwo 3) = Inr (80, ?s1)"
    by (simp add: build_simps arena_simps layout_simps alloc_simps observe_simps)
  have 2: "\<not> boundsCheck ?b" and 3: "0 < sizeofOffset ?b"
    by (simp_all add: allChecks_def)
  have 4: "\<forall>x<80. memory ?s1 x = memory ?s1 x"
    by simp
  have o: "m_CurrentOffset arena = 0" "m_CurrentOffset ?s1 = 32"
    by (simp_all add: build_simps arena_simps layout_simps alloc_simps observe_simps)
  have f: "failure (Deallocate_ptr ?b ?s1 80) = None"
    by (simp add: build_simps arena_simps layout_simps alloc_simps dealloc_simps
        observe_simps)
  show ?thesis
    using raw_and_handle_deallocation_agree [OF 1 2 3 4] 1 2 3 f unfolding o by simp
qed

text \<open>
  Source/StackAllocator, where the constructor of \<^verbatim>\<open>StackPtr\<close> is public,
  does the same: the allocation ends at offset 48 there.
\<close>

lemma inplace_header_misread_in_InStackAllocator:
  "returned (Allocate (allChecks InStackAllocator) arena 16 (PowerOfTwo 3)) = Some 96 \<and>
   m_CurrentOffset
     (stateAfter (Allocate (allChecks InStackAllocator) arena 16 (PowerOfTwo 3))) = 48 \<and>
   failure (Deallocate_ptr (allChecks InStackAllocator)
              (stateAfter (Allocate (allChecks InStackAllocator) arena 16 (PowerOfTwo 3))) 96)
     = None \<and>
   failure (Deallocate_StackPtr (allChecks InStackAllocator)
              (stateAfter (Allocate (allChecks InStackAllocator) arena 16 (PowerOfTwo 3)))
              (StackPtr 96 (StackHeader 0 48))) = Some CorruptionDetected"
  by (simp add: build_simps arena_simps layout_simps alloc_simps dealloc_simps observe_simps)

section \<open>C10: the reported used size\<close>

lemma call_stateAfter:
  "failure (call b s r) = None \<longrightarrow>
     usedSize (stateAfter (call b s r)) = m_CurrentOffset (stateAfter (call b s r))"
proof (cases "call b s r")
  case (Inl e)
  then show ?thesis by (cases e) (simp add: failure_def)
next
  case (Inr x)
  obtain a s' where "x = (a, s')" by (cases x)
  with Inr show ?thesis
    using call_Inr_state(4) [of b s r a s'] by (simp add: stateAfter_def)
qed

lemma release_stateAfter:
  "failure (release b s a) = None \<longrightarrow>
     usedSize (stateAfter (release b s a)) = m_CurrentOffset (stateAfter (release b s a))"
proof (cases "release b s a")
  case (Inl e)
  then show ?thesis by (cases e) (simp add: failure_def)
next
  case (Inr x)
  obtain u s' where "x = (u, s')" by (cases x)
  with Inr show ?thesis
    using release_Inr [of b s a u s'] by (simp add: stateAfter_def)
qed

text \<open>
  Claim C10: after every operation that moves the allocator (an allocation of any of the
  four kinds, a deallocation of any of the four kinds, \<^verbatim>\<open>Reset\<close>),
  \<^verbatim>\<open>GetUsedSize()\<close> equals \<^verbatim>\<open>m_CurrentOffset\<close>, as it
  does in a freshly constructed allocator: every change of the offset goes through
  \<^verbatim>\<open>SetCurrentOffset\<close>, which sets both. An operation that aborts
  changes neither.
\<close>

theorem GetUsedSize_is_CurrentOffset:
  "GetUsedSize (StackAllocator_new start n mem) = m_CurrentOffset (StackAllocator_new start n mem) \<and>
   GetUsedSize (SetCurrentOffset s k) = m_CurrentOffset (SetCurrentOffset s k) \<and>
   GetUsedSize (Reset s) = m_CurrentOffset (Reset s) \<and>
   (failure (call b s r) = None \<longrightarrow>
      GetUsedSize (stateAfter (call b s r)) = m_CurrentOffset (stateAfter (call b s r))) \<and>
   (failure (release b s a) = None \<longrightarrow>
      GetUsedSize (stateAfter (release b s a)) = m_CurrentOffset (stateAfter (release b s a))) \<and>
   (failure (call b s r) \<noteq> None \<longrightarrow> stateAfter (call b s r) = s) \<and>
   (failure (release b s a) \<noteq> None \<longrightarrow> stateAfter (release b s a) = s)"
proof -
  have 1: "failure (call b s r) \<noteq> None \<longrightarrow> stateAfter (call b s r) = s"
  proof (cases "call b s r")
    case (Inl e)
    then show ?thesis using call_Inl [of b s r "fst e" "snd e"] by (auto simp: stateAfter_def split: prod.splits)
  next
    case (Inr x)
    then show ?thesis by (simp add: failure_def)
  qed
  have 2: "failure (release b s a) \<noteq> None \<longrightarrow> stateAfter (release b s a) = s"
  proof (cases "release b s a")
    case (Inl e)
    then show ?thesis using release_Inl [of b s a "fst e" "snd e"] by (auto simp: stateAfter_def split: prod.splits)
  next
    case (Inr x)
    then show ?thesis by (simp add: failure_def)
  qed
  show ?thesis
    using 1 2 call_stateAfter [of b s r] release_stateAfter [of b s a]
    by (simp add: GetUsedSize_def Reset_def SetCurrentOffset_def SetUsedSize_def
        StackAllocator_new_def)
qed

text \<open>
  An allocation on the arena and its deallocation: 56 and 56, then 0 and 0.
\<close>

theorem GetUsedSize_is_CurrentOffset_witness:
  "failure (call (allChecks InAllocators) arena (CallAllocate 16 (PowerOfTwo 3))) = None \<and>
   GetUsedSize (stateAfter (call (allChecks InAllocators) arena (CallAllocate 16 (PowerOfTwo 3)))) = 56 \<and>
   m_CurrentOffset (stateAfter (call (allChecks InAllocators) arena (CallAllocate 16 (PowerOfTwo 3)))) = 56 \<and>
   failure (release (allChecks InAllocators)
              (stateAfter (call (allChecks InAllocators) arena (CallAllocate 16 (PowerOfTwo 3))))
              (Raw 96)) = None \<and>
   GetUsedSize (stateAfter (release (allChecks InAllocators)
              (stateAfter (call (allChecks InAllocators) arena (CallAllocate 16 (PowerOfTwo 3))))
              (Raw 96))) = 0 \<and>
   m_CurrentOffset (stateAfter (release (allChecks InAllocators)
              (stateAfter (call (allChecks InAllocators) arena (CallAllocate 16 (PowerOfTwo 3))))
              (Raw 96))) = 0"
proof -
  let ?b = "allChecks InAllocators"
  let ?c = "call ?b arena (CallAllocate 16 (PowerOfTwo 3))"
  let ?r = "release ?b (stateAfter ?c) (Raw 96)"
  have c: "failure ?c = None" and co: "m_CurrentOffset (stateAfter ?c) = 56"
    by (simp_all add: build_simps arena_simps layout_simps alloc_simps observe_simps)
  have r: "failure ?r = None" and ro: "m_CurrentOffset (stateAfter ?r) = 0"
    by (simp_all add: build_simps arena_simps layout_simps alloc_simps dealloc_simps
        observe_simps)
  show ?thesis
    using GetUsedSize_is_CurrentOffset [of 0 0 uninitialised arena 0 ?b "CallAllocate 16 (PowerOfTwo 3)" "Raw 96"]
      GetUsedSize_is_CurrentOffset [of 0 0 uninitialised "stateAfter ?c" 0 ?b "CallAllocate 16 (PowerOfTwo 3)" "Raw 96"]
      c co r ro
    by simp
qed

end
